theory Spec2Isabelle
  imports Main "HOL-Library.Multiset"
begin

section \<open>Python values and exceptions\<close>

text \<open>
  The slide mapping is read from a JSON column, so every value the manager meets is a JSON
  value as Python's decoder delivers it: \<^verbatim>\<open>None\<close>, a bool, an int, a str, a list
  or a dict with string keys. A dict is kept as an association list in insertion order;
  a key is looked up with \<open>map_of\<close>. JSON numbers with a fraction are left out of the
  model.
\<close>

datatype pyval =
    PNone
  | PBool bool
  | PInt int
  | PStr string
  | PList "pyval list"
  | PDict "(string \<times> pyval) list"

text \<open>The exception classes that occur; all of them derive from \<^verbatim>\<open>Exception\<close>.\<close>

datatype exn =
    KeyError
  | TypeError
  | ValueError
  | AttributeError
  | IndexError
  | UndefinedError
  | TemplateSyntaxError
  | PackageNotFoundError
  | OtherException nat

text \<open>Sequencing of calls that may raise.\<close>

definition ebind :: "exn + 'a \<Rightarrow> ('a \<Rightarrow> exn + 'b) \<Rightarrow> exn + 'b" where
  "ebind r f = (case r of Inl e \<Rightarrow> Inl e | Inr v \<Rightarrow> f v)"

text \<open>\<^verbatim>\<open>data[key]\<close> for a string key: a dict looks the key up, every other JSON value
  raises \<^verbatim>\<open>TypeError\<close> (a list or str wants integer indices, the rest is not
  subscriptable).\<close>

fun py_getitem :: "pyval \<Rightarrow> string \<Rightarrow> exn + pyval" where
  "py_getitem (PDict d) k = (case map_of d k of None \<Rightarrow> Inl KeyError | Some v \<Rightarrow> Inr v)"
| "py_getitem _ k = Inl TypeError"

text \<open>\<^verbatim>\<open>data.get(key, default)\<close>; only a dict has the method.\<close>

fun py_get :: "pyval \<Rightarrow> string \<Rightarrow> pyval \<Rightarrow> exn + pyval" where
  "py_get (PDict d) k dflt = (case map_of d k of None \<Rightarrow> Inr dflt | Some v \<Rightarrow> Inr v)"
| "py_get _ k dflt = Inl AttributeError"

text \<open>\<^verbatim>\<open>for s in v\<close>: a list yields its items, a str its characters, a dict its keys;
  nothing else is iterable.\<close>

fun py_iter :: "pyval \<Rightarrow> exn + pyval list" where
  "py_iter (PList xs) = Inr xs"
| "py_iter (PStr s) = Inr (map (\<lambda>c. PStr [c]) s)"
| "py_iter (PDict d) = Inr (map (\<lambda>kv. PStr (fst kv)) d)"
| "py_iter _ = Inl TypeError"

text \<open>Truth value of a JSON value.\<close>

fun truthy :: "pyval \<Rightarrow> bool" where
  "truthy PNone = False"
| "truthy (PBool b) = b"
| "truthy (PInt i) = (i \<noteq> 0)"
| "truthy (PStr s) = (s \<noteq> [])"
| "truthy (PList xs) = (xs \<noteq> [])"
| "truthy (PDict d) = (d \<noteq> [])"

fun is_dict :: "pyval \<Rightarrow> bool" where
  "is_dict (PDict d) = True"
| "is_dict _ = False"

text \<open>The integer a value denotes in a numeric comparison (\<^verbatim>\<open>bool\<close> is a subclass of
  \<^verbatim>\<open>int\<close>); \<open>None\<close> for the values that are no numbers.\<close>

fun py_num :: "pyval \<Rightarrow> int option" where
  "py_num (PInt i) = Some i"
| "py_num (PBool b) = Some (if b then 1 else 0)"
| "py_num _ = None"

text \<open>\<^verbatim>\<open>v >= n\<close> for an int \<open>n\<close>: raises \<^verbatim>\<open>TypeError\<close> unless \<open>v\<close> is a number.\<close>

definition py_ge_int :: "pyval \<Rightarrow> int \<Rightarrow> exn + bool" where
  "py_ge_int v n = (case py_num v of None \<Rightarrow> Inl TypeError | Some i \<Rightarrow> Inr (n \<le> i))"

text \<open>\<^verbatim>\<open>a == b\<close> on JSON values: numbers by value, strings and lists structurally, dicts
  as sets of key/value pairs whatever their order; values of different kinds are unequal.\<close>

fun py_eq :: "pyval \<Rightarrow> pyval \<Rightarrow> bool"
  and py_eq_list :: "pyval list \<Rightarrow> pyval list \<Rightarrow> bool"
  and py_dict_sub :: "(string \<times> pyval) list \<Rightarrow> (string \<times> pyval) list \<Rightarrow> bool" where
  "py_eq PNone b = (b = PNone)"
| "py_eq (PBool x) b = (py_num b = Some (if x then 1 else 0))"
| "py_eq (PInt i) b = (py_num b = Some i)"
| "py_eq (PStr s) b = (b = PStr s)"
| "py_eq (PList xs) b = (case b of PList ys \<Rightarrow> py_eq_list xs ys | _ \<Rightarrow> False)"
| "py_eq (PDict d) b =
     (case b of PDict d' \<Rightarrow>
        set (map fst d) = set (map fst d') \<and> py_dict_sub d d' | _ \<Rightarrow> False)"
| "py_eq_list [] ys = (ys = [])"
| "py_eq_list (x # xs) ys =
     (case ys of [] \<Rightarrow> False | y # ys' \<Rightarrow> py_eq x y \<and> py_eq_list xs ys')"
| "py_dict_sub [] d' = True"
| "py_dict_sub (kv # d) d' =
     ((case map_of d' (fst kv) of None \<Rightarrow> False | Some v' \<Rightarrow> py_eq (snd kv) v')
      \<and> py_dict_sub d d')"

text \<open>\<^verbatim>\<open>a < b\<close>: defined between two numbers, two strings (by code point, which is the
  byte order of UTF-8) and two lists (the first pair of unequal items decides, else the
  lengths); every other pair raises \<^verbatim>\<open>TypeError\<close>.\<close>

fun str_lt :: "string \<Rightarrow> string \<Rightarrow> bool" where
  "str_lt [] ys = (ys \<noteq> [])"
| "str_lt (x # xs) [] = False"
| "str_lt (x # xs) (y # ys) =
     (if of_char x < (of_char y :: nat) then True
      else if of_char x > (of_char y :: nat) then False
      else str_lt xs ys)"

fun py_lt :: "pyval \<Rightarrow> pyval \<Rightarrow> exn + bool"
  and py_lt_list :: "pyval list \<Rightarrow> pyval list \<Rightarrow> exn + bool" where
  "py_lt (PList xs) b = (case b of PList ys \<Rightarrow> py_lt_list xs ys | _ \<Rightarrow> Inl TypeError)"
| "py_lt (PStr s) b = (case b of PStr t \<Rightarrow> Inr (str_lt s t) | _ \<Rightarrow> Inl TypeError)"
| "py_lt (PInt i) b = (case py_num b of Some j \<Rightarrow> Inr (i < j) | None \<Rightarrow> Inl TypeError)"
| "py_lt (PBool x) b =
     (case py_num b of Some j \<Rightarrow> Inr ((if x then 1 else 0) < j) | None \<Rightarrow> Inl TypeError)"
| "py_lt PNone b = Inl TypeError"
| "py_lt (PDict d) b = Inl TypeError"
| "py_lt_list [] ys = Inr (ys \<noteq> [])"
| "py_lt_list (x # xs) ys =
     (case ys of [] \<Rightarrow> Inr False
      | y # ys' \<Rightarrow> if py_eq x y then py_lt_list xs ys' else py_lt x y)"

text \<open>\<^verbatim>\<open>sorted(xs, key=f)\<close>: a stable sort that compares keys with \<^verbatim>\<open><\<close> only and
  lets the comparison's \<^verbatim>\<open>TypeError\<close> through. The model inserts from the right, so
  that of two items with equal keys the one that came first stays first; which pairs of
  keys it compares is the choice of the model, the order of the result is not.\<close>

fun py_insort :: "('a \<Rightarrow> pyval) \<Rightarrow> 'a \<Rightarrow> 'a list \<Rightarrow> exn + 'a list" where
  "py_insort f x [] = Inr [x]"
| "py_insort f x (y # ys) =
     (case py_lt (f y) (f x) of
        Inl e \<Rightarrow> Inl e
      | Inr False \<Rightarrow> Inr (x # y # ys)
      | Inr True \<Rightarrow> (case py_insort f x ys of Inl e \<Rightarrow> Inl e | Inr zs \<Rightarrow> Inr (y # zs)))"

fun py_sorted :: "('a \<Rightarrow> pyval) \<Rightarrow> 'a list \<Rightarrow> exn + 'a list" where
  "py_sorted f [] = Inr []"
| "py_sorted f (x # xs) =
     (case py_sorted f xs of Inl e \<Rightarrow> Inl e | Inr ys \<Rightarrow> py_insort f x ys)"

text \<open>The key under which a value is stored in a \<^verbatim>\<open>set\<close> or looked up in a dict: equal
  numbers share one key; a list or a dict is unhashable.\<close>

datatype hkey = KNone | KNum int | KStr string

fun py_hash_key :: "pyval \<Rightarrow> exn + hkey" where
  "py_hash_key PNone = Inr KNone"
| "py_hash_key (PBool b) = Inr (KNum (if b then 1 else 0))"
| "py_hash_key (PInt i) = Inr (KNum i)"
| "py_hash_key (PStr s) = Inr (KStr s)"
| "py_hash_key (PList xs) = Inl TypeError"
| "py_hash_key (PDict d) = Inl TypeError"

text \<open>\<^verbatim>\<open>len(set(vs))\<close>.\<close>

fun py_hash_keys :: "pyval list \<Rightarrow> exn + hkey list" where
  "py_hash_keys [] = Inr []"
| "py_hash_keys (v # vs) =
     (case py_hash_key v of Inl e \<Rightarrow> Inl e
      | Inr k \<Rightarrow> (case py_hash_keys vs of Inl e \<Rightarrow> Inl e | Inr ks \<Rightarrow> Inr (k # ks)))"

definition py_len_set :: "pyval list \<Rightarrow> exn + nat" where
  "py_len_set vs =
     (case py_hash_keys vs of Inl e \<Rightarrow> Inl e | Inr ks \<Rightarrow> Inr (length (remdups ks)))"

text \<open>\<^verbatim>\<open>needle in haystack\<close> and \<^verbatim>\<open>s.startswith(p)\<close> on strings.\<close>

fun startswith :: "string \<Rightarrow> string \<Rightarrow> bool" where
  "startswith s [] = True"
| "startswith [] (p # ps) = False"
| "startswith (c # s) (p # ps) = (c = p \<and> startswith s ps)"

fun str_contains :: "string \<Rightarrow> string \<Rightarrow> bool" where
  "str_contains needle [] = (needle = [])"
| "str_contains needle (c # s) = (startswith (c # s) needle \<or> str_contains needle s)"

section \<open>The presentation object model\<close>

text \<open>
  The part of the presentation library's object model that the exporter touches. A run is
  a piece of text with its character properties; a paragraph holds runs, line breaks and
  fields; a text frame is a list of paragraphs.
\<close>

datatype color = NoColor | RGB nat | ThemeColor nat | OtherColor nat nat

record Font =
  f_name :: "string option"
  f_size :: "int option"
  f_bold :: "bool option"
  f_italic :: "bool option"
  f_underline :: "int option"
  f_color :: color
  f_other :: nat

record Run =
  r_text :: string
  r_font :: Font

datatype inline = R Run | Br | Fld string string

record Paragraph =
  p_items :: "inline list"
  p_level :: nat
  p_alignment :: "nat option"

datatype ph_type =
    PhTitle | PhCenterTitle | PhSubtitle | PhBody | PhObject
  | PhDate | PhFooter | PhSlideNumber | PhOther nat

text \<open>
  A shape has a name and, when it is a placeholder, a placeholder type and index. An
  auto shape, which every placeholder made by the library is, can hold text: for it
  \<^verbatim>\<open>has_text_frame\<close> is true whether or not it has a text body yet, and the first
  access to its text frame gives it a body of one empty paragraph. A picture, a graphic
  frame, a group or a connector has no text frame. \<open>sh_text_frame\<close> is the text body:
  \<open>None\<close> while the shape has none.
\<close>

record Shape =
  sh_name :: string
  sh_ph :: "(ph_type \<times> nat) option"
  sh_has_text_frame :: bool
  sh_text_frame :: "Paragraph list option"

record Layout =
  l_name :: string
  l_placeholders :: "Shape list"

record Slide =
  s_layout :: Layout
  s_shapes :: "Shape list"
  s_notes :: "Paragraph list option"

record Presentation =
  slide_layouts :: "Layout list"
  slides :: "Slide list"
  notes_master_body :: bool

section \<open>slide_mapping.py\<close>

subsection \<open>SlideConfig\<close>

text \<open>
  The constructor stores its five arguments as they come. Its parameters are annotated
  \<^verbatim>\<open>str\<close>, \<^verbatim>\<open>int\<close>, \<^verbatim>\<open>str\<close>, \<^verbatim>\<open>bool\<close>, \<^verbatim>\<open>int\<close>, but nothing checks the
  annotations, so a field holds whatever JSON value the document had.
\<close>

record SlideConfig =
  stype :: pyval
  layout_index :: pyval
  mode :: pyval
  enabled :: pyval
  position :: pyval

definition to_dict :: "SlideConfig \<Rightarrow> pyval" where
  "to_dict s = PDict
     [(''type'', stype s),
      (''layout_index'', layout_index s),
      (''mode'', mode s),
      (''enabled'', enabled s),
      (''position'', position s)]"

definition from_dict :: "pyval \<Rightarrow> exn + SlideConfig" where
  "from_dict data =
     ebind (py_getitem data ''type'') (\<lambda>t.
     ebind (py_getitem data ''layout_index'') (\<lambda>li.
     ebind (py_getitem data ''mode'') (\<lambda>m.
     ebind (py_get data ''enabled'' (PBool True)) (\<lambda>en.
     ebind (py_getitem data ''position'') (\<lambda>p.
       Inr \<lparr>stype = t, layout_index = li, mode = m, enabled = en, position = p\<rparr>)))))"

text \<open>The annotated types of the fields, as predicates.\<close>

fun is_str :: "pyval \<Rightarrow> bool" where
  "is_str (PStr s) = True"
| "is_str _ = False"

fun is_int :: "pyval \<Rightarrow> bool" where
  "is_int (PInt i) = True"
| "is_int _ = False"

fun is_bool :: "pyval \<Rightarrow> bool" where
  "is_bool (PBool b) = True"
| "is_bool _ = False"

definition well_typed :: "SlideConfig \<Rightarrow> bool" where
  "well_typed s \<longleftrightarrow>
     is_str (stype s) \<and> is_int (layout_index s) \<and> is_str (mode s)
     \<and> is_bool (enabled s) \<and> is_int (position s)"

subsection \<open>SlideMappingManager\<close>

definition SLIDE_TYPES :: "string list" where
  "SLIDE_TYPES =
     [''title'', ''agenda'', ''introduction'', ''assessment_details'', ''methodology'',
      ''timeline'', ''attack_path'', ''observations_overview'', ''observation'',
      ''findings_overview'', ''finding'', ''recommendations'', ''next_steps'', ''final'']"

definition default_entry :: "string \<Rightarrow> int \<Rightarrow> int \<Rightarrow> pyval" where
  "default_entry t li pos = PDict
     [(''type'', PStr t),
      (''layout_index'', PInt li),
      (''mode'', PStr ''dynamic''),
      (''enabled'', PBool True),
      (''position'', PInt pos)]"

definition DEFAULT_MAPPING :: pyval where
  "DEFAULT_MAPPING = PDict
     [(''version'', PInt 1),
      (''slides'', PList
        [default_entry ''title'' 0 1,
         default_entry ''agenda'' 1 2,
         default_entry ''introduction'' 1 3,
         default_entry ''assessment_details'' 1 4,
         default_entry ''methodology'' 1 5,
         default_entry ''timeline'' 1 6,
         default_entry ''attack_path'' 1 7,
         default_entry ''observations_overview'' 1 8,
         default_entry ''observation'' 1 9,
         default_entry ''findings_overview'' 1 10,
         default_entry ''finding'' 1 11,
         default_entry ''recommendations'' 1 12,
         default_entry ''next_steps'' 1 13,
         default_entry ''final'' 12 14])]"

record SlideMappingManager =
  presentation :: "Presentation option"
  mapping_data :: pyval
  slides_of :: "SlideConfig list"

text \<open>The loop of \<^verbatim>\<open>_parse_slides\<close>: an entry whose \<^verbatim>\<open>from_dict\<close> raises
  \<^verbatim>\<open>KeyError\<close>, \<^verbatim>\<open>TypeError\<close> or \<^verbatim>\<open>ValueError\<close> is skipped; any other exception
  leaves the loop.\<close>

fun parse_entries :: "pyval list \<Rightarrow> SlideConfig list \<Rightarrow> exn + SlideConfig list" where
  "parse_entries [] acc = Inr acc"
| "parse_entries (s # rest) acc =
     (case from_dict s of
        Inr c \<Rightarrow> parse_entries rest (acc @ [c])
      | Inl e \<Rightarrow>
          if e = KeyError \<or> e = TypeError \<or> e = ValueError
          then parse_entries rest acc
          else Inl e)"

definition parse_slides :: "pyval \<Rightarrow> exn + SlideConfig list" where
  "parse_slides md =
     ebind (py_get md ''slides'' (PList [])) (\<lambda>slides_data.
     ebind (py_iter slides_data) (\<lambda>items.
       parse_entries items []))"

text \<open>\<^verbatim>\<open>__init__\<close>: \<open>Inl\<close> is an exception leaving the constructor.\<close>

definition init :: "pyval \<Rightarrow> Presentation option \<Rightarrow> exn + SlideMappingManager" where
  "init md pres =
     (let data = (if md = PNone \<or> \<not> is_dict md then DEFAULT_MAPPING else md) in
      case parse_slides data of
        Inr ss \<Rightarrow> Inr \<lparr>presentation = pres, mapping_data = data, slides_of = ss\<rparr>
      | Inl e \<Rightarrow>
          (case parse_slides DEFAULT_MAPPING of
             Inl e' \<Rightarrow> Inl e'
           | Inr ss \<Rightarrow>
               Inr \<lparr>presentation = pres, mapping_data = DEFAULT_MAPPING, slides_of = ss\<rparr>))"

definition default_config :: "string \<Rightarrow> int \<Rightarrow> int \<Rightarrow> SlideConfig" where
  "default_config t li pos =
     \<lparr>stype = PStr t, layout_index = PInt li, mode = PStr ''dynamic'',
      enabled = PBool True, position = PInt pos\<rparr>"

text \<open>The slide list that \<^verbatim>\<open>DEFAULT_MAPPING\<close> parses to.\<close>

definition default_slides :: "SlideConfig list" where
  "default_slides =
     [default_config ''title'' 0 1,
      default_config ''agenda'' 1 2,
      default_config ''introduction'' 1 3,
      default_config ''assessment_details'' 1 4,
      default_config ''methodology'' 1 5,
      default_config ''timeline'' 1 6,
      default_config ''attack_path'' 1 7,
      default_config ''observations_overview'' 1 8,
      default_config ''observation'' 1 9,
      default_config ''findings_overview'' 1 10,
      default_config ''finding'' 1 11,
      default_config ''recommendations'' 1 12,
      default_config ''next_steps'' 1 13,
      default_config ''final'' 12 14]"

text \<open>\<^verbatim>\<open>to_dict\<close> of the manager.\<close>

definition mgr_to_dict :: "SlideMappingManager \<Rightarrow> exn + pyval" where
  "mgr_to_dict m =
     ebind (py_get (mapping_data m) ''version'' (PInt 1)) (\<lambda>v.
       Inr (PDict [(''version'', v), (''slides'', PList (map to_dict (slides_of m)))]))"

text \<open>\<^verbatim>\<open>get_slide_config\<close>: the first entry whose type equals the string asked for.\<close>

definition get_slide_config :: "SlideMappingManager \<Rightarrow> string \<Rightarrow> SlideConfig option" where
  "get_slide_config m slide_type =
     find (\<lambda>slide. py_eq (stype slide) (PStr slide_type)) (slides_of m)"

text \<open>\<^verbatim>\<open>get_layout_index\<close>. A presentation object is always true in a condition. The
  comparison with the layout count sits in a \<^verbatim>\<open>try\<close> whose handler returns the
  fallback, so nothing is raised.\<close>

definition get_layout_index :: "SlideMappingManager \<Rightarrow> string \<Rightarrow> pyval \<Rightarrow> pyval" where
  "get_layout_index m slide_type fallback =
     (case get_slide_config m slide_type of
        None \<Rightarrow> fallback
      | Some config \<Rightarrow>
          if \<not> truthy (enabled config) then fallback
          else
            (case presentation m of
               None \<Rightarrow> layout_index config
             | Some prs \<Rightarrow>
                 (case py_ge_int (layout_index config) (int (length (slide_layouts prs))) of
                    Inl e \<Rightarrow> fallback
                  | Inr True \<Rightarrow> fallback
                  | Inr False \<Rightarrow> layout_index config)))"

definition is_slide_enabled :: "SlideMappingManager \<Rightarrow> string \<Rightarrow> pyval" where
  "is_slide_enabled m slide_type =
     (case get_slide_config m slide_type of None \<Rightarrow> PBool True | Some config \<Rightarrow> enabled config)"

text \<open>\<^verbatim>\<open>get_slides_by_position\<close>, as a pair of what it returns (or raises) and the
  manager afterwards; the method assigns to no attribute and builds new lists.\<close>

definition get_slides_by_position ::
  "SlideMappingManager \<Rightarrow> (exn + SlideConfig list) \<times> SlideMappingManager" where
  "get_slides_by_position m =
     (let enabled_slides = filter (\<lambda>s. truthy (enabled s)) (slides_of m)
      in (py_sorted position enabled_slides, m))"

text \<open>The entries of the two lists that \<^verbatim>\<open>validate\<close> returns. Each constructor stands
  for one of the method's message templates and carries the values put into it:
  \<^item> \<open>DuplicatePositions\<close>: "Duplicate position values found in slide mapping";
  \<^item> \<open>UnknownSlideType t\<close>: "Unknown slide type: t";
  \<^item> \<open>InvalidMode md t\<close>: "Invalid mode 'md' for slide type t";
  \<^item> \<open>LayoutIndexExceeds i t n\<close>: "Layout index i for slide type 't' exceeds available
    layouts (0-n)";
  \<^item> \<open>RequiredNotEnabled t\<close>: "Required slide type 't' is not enabled".\<close>

datatype message =
    DuplicatePositions
  | UnknownSlideType pyval
  | InvalidMode pyval pyval
  | LayoutIndexExceeds pyval pyval int
  | RequiredNotEnabled string

text \<open>The loop over the slide types: \<^verbatim>\<open>slide.type not in self.SLIDE_TYPES\<close> hashes the
  type, and \<^verbatim>\<open>startswith\<close> exists on a str only.\<close>

fun unknown_types :: "SlideConfig list \<Rightarrow> message list \<Rightarrow> exn + message list" where
  "unknown_types [] warnings = Inr warnings"
| "unknown_types (slide # rest) warnings =
     (case py_hash_key (stype slide) of
        Inl e \<Rightarrow> Inl e
      | Inr k \<Rightarrow>
          if k \<in> set (map KStr SLIDE_TYPES) then unknown_types rest warnings
          else
            (case stype slide of
               PStr t \<Rightarrow>
                 if startswith t ''custom_'' then unknown_types rest warnings
                 else unknown_types rest (warnings @ [UnknownSlideType (stype slide)])
             | _ \<Rightarrow> Inl AttributeError))"

fun invalid_modes :: "SlideConfig list \<Rightarrow> message list \<Rightarrow> message list" where
  "invalid_modes [] errors = errors"
| "invalid_modes (slide # rest) errors =
     (if \<not> (py_eq (mode slide) (PStr ''static'') \<or> py_eq (mode slide) (PStr ''dynamic''))
      then invalid_modes rest (errors @ [InvalidMode (mode slide) (stype slide)])
      else invalid_modes rest errors)"

text \<open>The loop over the layout indices runs inside a \<^verbatim>\<open>try\<close>: a comparison that raises
  ends the loop, and the errors found before it stay.\<close>

fun layout_errors :: "int \<Rightarrow> SlideConfig list \<Rightarrow> message list \<Rightarrow> message list" where
  "layout_errors layout_count [] errors = errors"
| "layout_errors layout_count (slide # rest) errors =
     (if truthy (enabled slide) then
        (case py_ge_int (layout_index slide) layout_count of
           Inl e \<Rightarrow> errors
         | Inr True \<Rightarrow>
             layout_errors layout_count rest
               (errors @ [LayoutIndexExceeds (layout_index slide) (stype slide) (layout_count - 1)])
         | Inr False \<Rightarrow> layout_errors layout_count rest errors)
      else layout_errors layout_count rest errors)"

fun required_types :: "SlideMappingManager \<Rightarrow> string list \<Rightarrow> message list \<Rightarrow> message list" where
  "required_types m [] warnings = warnings"
| "required_types m (req_type # rest) warnings =
     (case get_slide_config m req_type of
        None \<Rightarrow> required_types m rest (warnings @ [RequiredNotEnabled req_type])
      | Some config \<Rightarrow>
          if \<not> truthy (enabled config)
          then required_types m rest (warnings @ [RequiredNotEnabled req_type])
          else required_types m rest warnings)"

text \<open>\<^verbatim>\<open>validate\<close>: the pair (warnings, errors) or the exception that leaves the method,
  and the manager afterwards.\<close>

definition validate ::
  "SlideMappingManager \<Rightarrow> (exn + message list \<times> message list) \<times> SlideMappingManager" where
  "validate m =
     (let positions = map position (filter (\<lambda>s. truthy (enabled s)) (slides_of m));
          result =
            ebind (py_len_set positions) (\<lambda>n.
            ebind (unknown_types (slides_of m)
                     (if length positions \<noteq> n then [DuplicatePositions] else [])) (\<lambda>warnings.
              let errors = invalid_modes (slides_of m) [];
                  errors' = (case presentation m of
                               None \<Rightarrow> errors
                             | Some prs \<Rightarrow>
                                 layout_errors (int (length (slide_layouts prs))) (slides_of m) errors)
              in Inr (required_types m [''title'', ''final''] warnings, errors')))
      in (result, m))"

text \<open>\<^verbatim>\<open>extract_layouts_from_pptx\<close>. Opening the file is the library's work: \<open>opener\<close>
  is what \<^verbatim>\<open>Presentation(pptx_path)\<close> does with a path, a presentation or an exception.
  The handler catches every \<^verbatim>\<open>Exception\<close> and returns the empty list.\<close>

definition layout_entry :: "nat \<times> Layout \<Rightarrow> pyval" where
  "layout_entry p = PDict [(''index'', PInt (int (fst p))), (''name'', PStr (l_name (snd p)))]"

definition extract_layouts_from_pptx ::
  "(string \<Rightarrow> exn + Presentation) \<Rightarrow> string \<Rightarrow> exn + pyval list" where
  "extract_layouts_from_pptx opener pptx_path =
     (case ebind (opener pptx_path) (\<lambda>prs.
             Inr (map layout_entry (enumerate 0 (slide_layouts prs)))) of
        Inl e \<Rightarrow> Inr []
      | Inr layouts \<Rightarrow> Inr layouts)"

text \<open>What one entry of the document contributes to the slide list.\<close>

definition parsed :: "pyval \<Rightarrow> SlideConfig option" where
  "parsed e = (case from_dict e of Inr c \<Rightarrow> Some c | Inl x \<Rightarrow> None)"

section \<open>base/pptx.py\<close>

subsection \<open>The library's text operations\<close>

text \<open>
  What the presentation library does when text is read or assigned, as far as the exporter
  relies on it. A character of the model is a code point below 256. A run stores the
  string assigned to it (the library writes a control character other than tab and line
  feed as an escape sequence; strings with such characters are outside the model).
  Assigning to a paragraph removes its runs, line breaks and
  fields and appends the new text: a line feed or a vertical tab becomes a line break,
  and each non-empty piece between them becomes a run with no properties of its own.
  Assigning to a text frame makes one such paragraph per line.
\<close>

definition default_font :: Font where
  "default_font =
     \<lparr>f_name = None, f_size = None, f_bold = None, f_italic = None, f_underline = None,
      f_color = NoColor, f_other = 0\<rparr>"

definition new_paragraph :: Paragraph where
  "new_paragraph = \<lparr>p_items = [], p_level = 0, p_alignment = None\<rparr>"

fun is_run :: "inline \<Rightarrow> bool" where
  "is_run (R r) = True"
| "is_run _ = False"

fun runs_of_items :: "inline list \<Rightarrow> Run list" where
  "runs_of_items [] = []"
| "runs_of_items (R r # items) = r # runs_of_items items"
| "runs_of_items (i # items) = runs_of_items items"

definition runs :: "Paragraph \<Rightarrow> Run list" where
  "runs p = runs_of_items (p_items p)"

fun item_text :: "inline \<Rightarrow> string" where
  "item_text (R r) = r_text r"
| "item_text Br = [CHR 0x0B]"
| "item_text (Fld kind t) = t"

definition para_text :: "Paragraph \<Rightarrow> string" where
  "para_text p = concat (map item_text (p_items p))"

fun join_lines :: "string list \<Rightarrow> string" where
  "join_lines [] = []"
| "join_lines [l] = l"
| "join_lines (l # ls) = l @ [CHR 0x0A] @ join_lines ls"

definition frame_text :: "Paragraph list \<Rightarrow> string" where
  "frame_text ps = join_lines (map para_text ps)"

fun split_on :: "(char \<Rightarrow> bool) \<Rightarrow> string \<Rightarrow> string list" where
  "split_on sep [] = [[]]"
| "split_on sep (c # s) =
     (if sep c then [] # split_on sep s
      else (case split_on sep s of [] \<Rightarrow> [[c]] | seg # segs \<Rightarrow> (c # seg) # segs))"

fun segment_items :: "bool \<Rightarrow> string list \<Rightarrow> inline list" where
  "segment_items first [] = []"
| "segment_items first (seg # segs) =
     (if first then [] else [Br])
     @ (if seg = [] then [] else [R \<lparr>r_text = seg, r_font = default_font\<rparr>])
     @ segment_items False segs"

definition append_text :: "inline list \<Rightarrow> string \<Rightarrow> inline list" where
  "append_text items t =
     items @ segment_items True (split_on (\<lambda>c. c = CHR 0x0A \<or> c = CHR 0x0B) t)"

definition para_set_text :: "Paragraph \<Rightarrow> string \<Rightarrow> Paragraph" where
  "para_set_text p t = p\<lparr>p_items := append_text [] t\<rparr>"

definition frame_set_text :: "string \<Rightarrow> Paragraph list" where
  "frame_set_text t =
     map (\<lambda>line. new_paragraph\<lparr>p_items := append_text [] line\<rparr>)
       (split_on (\<lambda>c. c = CHR 0x0A) t)"

text \<open>Reading or assigning the text of a shape goes through its text frame; a shape
  that has no text body yet gets one with a single empty paragraph.\<close>

definition shape_frame :: "Shape \<Rightarrow> Paragraph list" where
  "shape_frame sh = (case sh_text_frame sh of None \<Rightarrow> [new_paragraph] | Some ps \<Rightarrow> ps)"

definition shape_text :: "Shape \<Rightarrow> string" where
  "shape_text sh = frame_text (shape_frame sh)"

definition shape_set_text :: "Shape \<Rightarrow> string \<Rightarrow> Shape" where
  "shape_set_text sh t = sh\<lparr>sh_text_frame := Some (frame_set_text t)\<rparr>"

text \<open>\<^verbatim>\<open>xs[i]\<close> on a list: an index below zero counts from the end.\<close>

definition py_index :: "'a list \<Rightarrow> pyval \<Rightarrow> exn + 'a" where
  "py_index xs idx =
     (case py_num idx of
        None \<Rightarrow> Inl TypeError
      | Some i \<Rightarrow>
          if 0 \<le> i \<and> i < int (length xs) then Inr (xs ! nat i)
          else if i < 0 \<and> 0 \<le> int (length xs) + i then Inr (xs ! nat (int (length xs) + i))
          else Inl IndexError)"

text \<open>A slide made from a layout gets a copy of each placeholder of the layout but the
  date, footer and slide number ones. The copy has the placeholder's type and index, a
  name the library chooses (\<open>namer\<close>), and a text body only for a title, subtitle,
  body or object placeholder; it is an auto shape, so it has a text frame.\<close>

definition cloneable :: "Shape \<Rightarrow> bool" where
  "cloneable ph =
     (case sh_ph ph of
        None \<Rightarrow> False
      | Some (t, i) \<Rightarrow> t \<noteq> PhDate \<and> t \<noteq> PhFooter \<and> t \<noteq> PhSlideNumber)"

definition has_text_body :: "Shape \<Rightarrow> bool" where
  "has_text_body ph =
     (case sh_ph ph of
        None \<Rightarrow> False
      | Some (t, i) \<Rightarrow> t = PhTitle \<or> t = PhCenterTitle \<or> t = PhSubtitle \<or> t = PhBody \<or> t = PhObject)"

definition shapes_clone_placeholder :: "(Slide \<Rightarrow> Shape \<Rightarrow> string) \<Rightarrow> Slide \<Rightarrow> Shape \<Rightarrow> Slide" where
  "shapes_clone_placeholder namer slide ph =
     slide\<lparr>s_shapes := s_shapes slide @
       [\<lparr>sh_name = namer slide ph, sh_ph = sh_ph ph, sh_has_text_frame = True,
         sh_text_frame = (if has_text_body ph then Some [new_paragraph] else None)\<rparr>]\<rparr>"

fun clone_layout_placeholders :: "(Slide \<Rightarrow> Shape \<Rightarrow> string) \<Rightarrow> Shape list \<Rightarrow> Slide \<Rightarrow> Slide" where
  "clone_layout_placeholders namer [] slide = slide"
| "clone_layout_placeholders namer (ph # rest) slide =
     clone_layout_placeholders namer rest
       (if cloneable ph then shapes_clone_placeholder namer slide ph else slide)"

text \<open>The notes text frame of a slide is that of the body placeholder which the notes
  page copies from the notes master, if the master has one.\<close>

definition add_slide :: "(Slide \<Rightarrow> Shape \<Rightarrow> string) \<Rightarrow> Presentation \<Rightarrow> Layout \<Rightarrow> Slide" where
  "add_slide namer prs slide_layout =
     clone_layout_placeholders namer (l_placeholders slide_layout)
       \<lparr>s_layout = slide_layout, s_shapes = [],
        s_notes = (if notes_master_body prs then Some [new_paragraph] else None)\<rparr>"

subsection \<open>process_footers\<close>

text \<open>\<^verbatim>\<open>clone_placeholder\<close>: the layout's placeholder at the position and the slide with
  the copy as its last shape.\<close>

definition clone_placeholder ::
  "(Slide \<Rightarrow> Shape \<Rightarrow> string) \<Rightarrow> Slide \<Rightarrow> Layout \<Rightarrow> int \<Rightarrow> exn + Shape \<times> Slide" where
  "clone_placeholder namer slide slide_layout placeholder_idx =
     ebind (py_index (l_placeholders slide_layout) (PInt placeholder_idx)) (\<lambda>layout_placeholder.
       Inr (layout_placeholder, shapes_clone_placeholder namer slide layout_placeholder))"

text \<open>An update of the last shape of a slide, where the code assigns to the shape that
  \<^verbatim>\<open>clone_placeholder\<close> returned.\<close>

definition update_last_shape :: "(Shape \<Rightarrow> exn + Shape) \<Rightarrow> Slide \<Rightarrow> exn + Slide" where
  "update_last_shape f slide =
     (case rev (s_shapes slide) of
        [] \<Rightarrow> Inl IndexError
      | sh # earlier \<Rightarrow> ebind (f sh) (\<lambda>sh'. Inr (slide\<lparr>s_shapes := rev earlier @ [sh']\<rparr>)))"

text \<open>\<^verbatim>\<open>add_slide_number\<close>: a slide number field is appended to the first paragraph of
  the text box.\<close>

definition add_slide_number :: "Shape \<Rightarrow> exn + Shape" where
  "add_slide_number txtbox =
     (case shape_frame txtbox of
        [] \<Rightarrow> Inl IndexError
      | par # pars \<Rightarrow>
          Inr (txtbox\<lparr>sh_text_frame :=
                 Some (par\<lparr>p_items := p_items par @ [Fld ''slidenum'' ''2'']\<rparr> # pars)\<rparr>))"

text \<open>The inner loop of \<^verbatim>\<open>process_footers\<close>. Its loop variable has the name of the outer
  loop's, \<^verbatim>\<open>idx\<close>, so each round assigns to that one variable: the state is \<^verbatim>\<open>idx\<close>
  and the three placeholder positions.\<close>

fun scan_placeholders :: "(nat \<times> Shape) list \<Rightarrow> int \<times> int \<times> int \<times> int \<Rightarrow> int \<times> int \<times> int \<times> int" where
  "scan_placeholders [] st = st"
| "scan_placeholders ((i, place) # rest) (idx, footer_idx, slide_number_idx, date_idx) =
     scan_placeholders rest
       (int i,
        if str_contains ''Footer'' (sh_name place) then int i else footer_idx,
        if str_contains ''Slide Number'' (sh_name place) then int i else slide_number_idx,
        if str_contains ''Date'' (sh_name place) then int i else date_idx)"

text \<open>The body of the outer loop for the slide at position \<open>idx\<close>; \<open>today\<close> is the
  formatted date of the day.\<close>

definition footer_slide ::
  "string \<Rightarrow> (Slide \<Rightarrow> Shape \<Rightarrow> string) \<Rightarrow> nat \<Rightarrow> Slide \<Rightarrow> exn + Slide" where
  "footer_slide today namer idx slide =
     (let slide_layout = s_layout slide in
      case scan_placeholders (enumerate 0 (l_placeholders slide_layout)) (int idx, - 1, - 1, - 1) of
        (idx', footer_placeholder_idx, slide_number_placeholder_idx, date_placeholder_idx) \<Rightarrow>
          if idx' > 0 then
            ebind
              (if footer_placeholder_idx > 0 then
                 ebind (clone_placeholder namer slide slide_layout footer_placeholder_idx)
                   (\<lambda>(footer_layout_placeholder, slide1).
                      update_last_shape
                        (\<lambda>footer_placeholder.
                           Inr (shape_set_text footer_placeholder (shape_text footer_layout_placeholder)))
                        slide1)
               else Inr slide) (\<lambda>slide2.
            ebind
              (if slide_number_placeholder_idx > 0 then
                 ebind (clone_placeholder namer slide2 slide_layout slide_number_placeholder_idx)
                   (\<lambda>(layout_placeholder, slide3). update_last_shape add_slide_number slide3)
               else Inr slide2) (\<lambda>slide4.
              if date_placeholder_idx > 0 then
                ebind (clone_placeholder namer slide4 slide_layout date_placeholder_idx)
                  (\<lambda>(layout_placeholder, slide5).
                     update_last_shape
                       (\<lambda>date_placeholder. Inr (shape_set_text date_placeholder today))
                       slide5)
              else Inr slide4))
          else Inr slide)"

fun footer_slides ::
  "string \<Rightarrow> (Slide \<Rightarrow> Shape \<Rightarrow> string) \<Rightarrow> (nat \<times> Slide) list \<Rightarrow> exn + Slide list" where
  "footer_slides today namer [] = Inr []"
| "footer_slides today namer ((idx, slide) # rest) =
     ebind (footer_slide today namer idx slide) (\<lambda>slide'.
     ebind (footer_slides today namer rest) (\<lambda>rest'. Inr (slide' # rest')))"

definition process_footers ::
  "string \<Rightarrow> (Slide \<Rightarrow> Shape \<Rightarrow> string) \<Rightarrow> Presentation \<Rightarrow> exn + Presentation" where
  "process_footers today namer prs =
     ebind (footer_slides today namer (enumerate 0 (slides prs))) (\<lambda>ss.
       Inr (prs\<lparr>slides := ss\<rparr>))"

subsection \<open>set_text_preserving_format\<close>

fun clear_run_texts :: "inline list \<Rightarrow> inline list" where
  "clear_run_texts [] = []"
| "clear_run_texts (R r # items) = R (r\<lparr>r_text := []\<rparr>) # clear_run_texts items"
| "clear_run_texts (i # items) = i # clear_run_texts items"

fun set_first_run_text :: "string \<Rightarrow> inline list \<Rightarrow> inline list" where
  "set_first_run_text t [] = []"
| "set_first_run_text t (R r # items) = R (r\<lparr>r_text := t\<rparr>) # items"
| "set_first_run_text t (i # items) = i # set_first_run_text t items"

fun remove_extra_runs :: "inline list \<Rightarrow> inline list" where
  "remove_extra_runs [] = []"
| "remove_extra_runs (R r # items) = R r # filter (\<lambda>i. \<not> is_run i) items"
| "remove_extra_runs (i # items) = i # remove_extra_runs items"

text \<open>The shape after the call; \<open>None\<close> is Python's \<^verbatim>\<open>None\<close> passed for the shape.
  The function returns at once only for \<^verbatim>\<open>None\<close> and for a shape without a text frame.
  For any other shape it takes \<^verbatim>\<open>shape.text_frame\<close>, and that access gives a shape
  without a text body one with a single empty paragraph (\<open>shape_frame\<close>), which is
  then the first paragraph.\<close>

definition set_text_preserving_format :: "Shape option \<Rightarrow> string \<Rightarrow> Shape option" where
  "set_text_preserving_format shape t =
     (case shape of
        None \<Rightarrow> None
      | Some sh \<Rightarrow>
          if \<not> sh_has_text_frame sh then Some sh
          else
            (case shape_frame sh of
               [] \<Rightarrow> Some (sh\<lparr>sh_text_frame := Some (frame_set_text t)\<rparr>)
             | first_para # others \<Rightarrow>
                 Some (sh\<lparr>sh_text_frame := Some
                   [if runs first_para \<noteq> []
                    then first_para\<lparr>p_items :=
                           remove_extra_runs
                             (set_first_run_text t (clear_run_texts (p_items first_para)))\<rparr>
                    else para_set_text first_para t]\<rparr>)))"

subsection \<open>render_jinja2_in_textframe\<close>

text \<open>
  The paragraphs of the text frame are objects that the loop holds on to while the
  rich-text converter changes the shape, so the state is a store: the content of every
  paragraph object by its identity, the identities of the frame's paragraphs in order,
  and the rest of the slide, which only the converter touches. A paragraph that is no
  longer in the frame has no parent.
\<close>

record 'x world =
  w_paras :: "nat \<Rightarrow> Paragraph"
  w_frame :: "nat list"
  w_rest :: 'x

definition original_text :: "Paragraph \<Rightarrow> string" where
  "original_text p =
     map (\<lambda>c. if c = CHR 0xA0 then CHR '' '' else c) (concat (map r_text (runs p)))"

definition py_isspace :: "char \<Rightarrow> bool" where
  "py_isspace c \<longleftrightarrow>
     (of_char c :: nat) \<in> {9, 10, 11, 12, 13, 28, 29, 30, 31, 32, 133, 160}"

definition delete_paragraph :: "nat \<Rightarrow> 'x world \<Rightarrow> 'x world" where
  "delete_paragraph pid w =
     (if pid \<in> set (w_frame w) then w\<lparr>w_frame := remove1 pid (w_frame w)\<rparr> else w)"

text \<open>The properties kept from the first run: name, size, bold, italic, underline, and
  the colour when it has a type.\<close>

definition capture_font_props :: "Paragraph \<Rightarrow> Font option" where
  "capture_font_props p = (case runs p of [] \<Rightarrow> None | r # rs \<Rightarrow> Some (r_font r))"

definition apply_font_props :: "Font option \<Rightarrow> Run \<Rightarrow> Run" where
  "apply_font_props font_props new_run =
     (case font_props of
        None \<Rightarrow> new_run
      | Some f \<Rightarrow>
          new_run\<lparr>r_font := (r_font new_run)
            \<lparr>f_name := f_name f, f_size := f_size f, f_bold := f_bold f,
             f_italic := f_italic f, f_underline := f_underline f,
             f_color := (case f_color f of
                           RGB c \<Rightarrow> RGB c
                         | ThemeColor c \<Rightarrow> ThemeColor c
                         | _ \<Rightarrow> f_color (r_font new_run))\<rparr>\<rparr>)"

text \<open>The body of the \<^verbatim>\<open>try\<close> for one paragraph: the exception raised in it, if any, and
  the state at that moment. \<open>render\<close> is the template engine on the paragraph's text
  with the context, \<open>is_html\<close> the markup test on the rendered text, \<open>converter\<close> the
  external rich-text converter.\<close>

definition render_paragraph_body ::
  "(string \<Rightarrow> exn + string) \<Rightarrow> (string \<Rightarrow> exn + bool)
   \<Rightarrow> (string \<Rightarrow> 'x world \<Rightarrow> exn option \<times> 'x world)
   \<Rightarrow> nat \<Rightarrow> 'x world \<Rightarrow> exn option \<times> 'x world" where
  "render_paragraph_body render is_html converter pid w =
     (let p = w_paras w pid in
      case render (original_text p) of
        Inl e \<Rightarrow> (Some e, w)
      | Inr rendered_text \<Rightarrow>
          (case is_html rendered_text of
             Inl e \<Rightarrow> (Some e, w)
           | Inr html \<Rightarrow>
               let font_props = capture_font_props p;
                   cleared = p\<lparr>p_items := filter (\<lambda>i. \<not> is_run i) (p_items p)\<rparr>;
                   w1 = w\<lparr>w_paras := (w_paras w)(pid := cleared)\<rparr>
               in
                 if html then
                   (case converter rendered_text w1 of
                      (Some e, w2) \<Rightarrow> (Some e, w2)
                    | (None, w2) \<Rightarrow>
                        (None,
                         if list_all py_isspace (para_text (w_paras w2 pid))
                         then delete_paragraph pid w2 else w2))
                 else
                   (None,
                    w1\<lparr>w_paras := (w_paras w1)(pid :=
                         cleared\<lparr>p_items := p_items cleared @
                           [R (apply_font_props font_props
                                 \<lparr>r_text = rendered_text, r_font = default_font\<rparr>)]\<rparr>)\<rparr>)))"

text \<open>One round of the loop. Both handlers, the one for an undefined variable and the
  one for any other exception, write to the log and go on.\<close>

definition render_paragraph ::
  "(string \<Rightarrow> exn + string) \<Rightarrow> (string \<Rightarrow> exn + bool)
   \<Rightarrow> (string \<Rightarrow> 'x world \<Rightarrow> exn option \<times> 'x world)
   \<Rightarrow> nat \<Rightarrow> 'x world \<Rightarrow> exn + 'x world" where
  "render_paragraph render is_html converter pid w =
     (let t = original_text (w_paras w pid) in
      if t \<noteq> [] \<and> str_contains ''{{'' t \<and> str_contains ''}}'' t then
        (case render_paragraph_body render is_html converter pid w of
           (None, w') \<Rightarrow> Inr w'
         | (Some e, w') \<Rightarrow> Inr w')
      else Inr w)"

fun render_paragraphs ::
  "(string \<Rightarrow> exn + string) \<Rightarrow> (string \<Rightarrow> exn + bool)
   \<Rightarrow> (string \<Rightarrow> 'x world \<Rightarrow> exn option \<times> 'x world)
   \<Rightarrow> nat list \<Rightarrow> 'x world \<Rightarrow> exn + 'x world" where
  "render_paragraphs render is_html converter [] w = Inr w"
| "render_paragraphs render is_html converter (pid # rest) w =
     ebind (render_paragraph render is_html converter pid w)
       (render_paragraphs render is_html converter rest)"

text \<open>The loop runs over the paragraphs the frame has when it starts.\<close>

definition render_jinja2_in_textframe ::
  "(string \<Rightarrow> exn + string) \<Rightarrow> (string \<Rightarrow> exn + bool)
   \<Rightarrow> (string \<Rightarrow> 'x world \<Rightarrow> exn option \<times> 'x world)
   \<Rightarrow> 'x world \<Rightarrow> exn + 'x world" where
  "render_jinja2_in_textframe render is_html converter w =
     render_paragraphs render is_html converter (w_frame w) w"

section \<open>report/pptx.py\<close>

text \<open>
  The builders of the slides for observations and findings. What they call outside this
  code is a parameter: the name the library gives a copied placeholder, the text of a
  piece of HTML, the body of \<^verbatim>\<open>render_jinja2_in_shape\<close>, the converter's
  \<^verbatim>\<open>make_evidence\<close>, \<^verbatim>\<open>str.capitalize\<close> and the string a value formats to.
\<close>

datatype py_arg =
    ArgShape Shape
  | ArgEnv
  | ArgContext "(string \<times> pyval) list"
  | ArgSlide Slide
  | ArgEvidences pyval

type_synonym bound_args = "py_arg \<times> py_arg \<times> py_arg \<times> py_arg \<times> py_arg option"

record Externals =
  next_ph_name :: "Slide \<Rightarrow> Shape \<Rightarrow> string"
  html_text :: "pyval \<Rightarrow> exn + string"
  render_shape_body :: "bound_args \<Rightarrow> Slide \<Rightarrow> exn + Slide"
  make_evidence :: "Slide \<Rightarrow> pyval \<Rightarrow> exn + Slide"
  capitalize :: "string \<Rightarrow> string"
  format_value :: "pyval \<Rightarrow> string"

text \<open>\<^verbatim>\<open>prepare_for_pptx\<close>: the text of the HTML without carriage returns, \<^verbatim>\<open>N/A\<close> for
  a false value, the empty string when parsing raises.\<close>

definition prepare_for_pptx :: "Externals \<Rightarrow> pyval \<Rightarrow> string" where
  "prepare_for_pptx ext v =
     (if truthy v then
        (case html_text ext v of
           Inl e \<Rightarrow> []
         | Inr t \<Rightarrow> filter (\<lambda>c. c \<noteq> CHR 0x0D) t)
      else ''N/A'')"

text \<open>A call of \<^verbatim>\<open>render_jinja2_in_shape(shape, jinja_env, context, slide, evidences=None)\<close>
  with positional arguments: the first four parameters have no default, so a call with
  fewer than four arguments (or more than five) raises \<^verbatim>\<open>TypeError\<close> before the body
  runs.\<close>

fun bind_render_jinja2_in_shape :: "py_arg list \<Rightarrow> exn + bound_args" where
  "bind_render_jinja2_in_shape [shape, jinja_env, context, slide] =
     Inr (shape, jinja_env, context, slide, None)"
| "bind_render_jinja2_in_shape [shape, jinja_env, context, slide, evidences] =
     Inr (shape, jinja_env, context, slide, Some evidences)"
| "bind_render_jinja2_in_shape args = Inl TypeError"

definition call_render_jinja2_in_shape :: "Externals \<Rightarrow> py_arg list \<Rightarrow> Slide \<Rightarrow> exn + Slide" where
  "call_render_jinja2_in_shape ext args slide =
     ebind (bind_render_jinja2_in_shape args) (\<lambda>bound. render_shape_body ext bound slide)"

text \<open>The loop over the shapes of the new slide, with the call as the builders write it:
  three arguments.\<close>

fun render_shapes :: "Externals \<Rightarrow> (string \<times> pyval) list \<Rightarrow> Shape list \<Rightarrow> Slide \<Rightarrow> exn + Slide" where
  "render_shapes ext context [] slide = Inr slide"
| "render_shapes ext context (shape # rest) slide =
     ebind (call_render_jinja2_in_shape ext [ArgShape shape, ArgEnv, ArgContext context] slide)
       (render_shapes ext context rest)"

fun add_evidences :: "Externals \<Rightarrow> pyval list \<Rightarrow> Slide \<Rightarrow> exn + Slide" where
  "add_evidences ext [] slide = Inr slide"
| "add_evidences ext (ev # rest) slide =
     ebind (make_evidence ext slide ev) (add_evidences ext rest)"

text \<open>One round of the loop of \<^verbatim>\<open>create_observation_slides\<close>: the finished slide, or the
  exception that leaves the builder. The library appends the new slide to the deck when it
  makes it; the model appends it when the round is over, and an exception carries no
  state.\<close>

definition observation_slide ::
  "Externals \<Rightarrow> SlideConfig \<Rightarrow> Presentation \<Rightarrow> pyval \<Rightarrow> exn + Slide" where
  "observation_slide ext config prs observation =
     ebind (py_index (slide_layouts prs) (layout_index config)) (\<lambda>slide_layout.
     let slide = add_slide (next_ph_name ext) prs slide_layout in
     ebind (py_get observation ''title'' (PStr [])) (\<lambda>title.
     ebind (py_get observation ''description'' (PStr [])) (\<lambda>description.
     let observation_context =
           [(''title'', title),
            (''description'', PStr (prepare_for_pptx ext description))] in
     ebind (render_shapes ext observation_context (s_shapes slide) slide) (\<lambda>slide1.
     ebind (py_get observation ''evidence'' (PList [])) (\<lambda>evidence.
     ebind (py_iter evidence) (\<lambda>evs.
       add_evidences ext evs slide1))))))"

fun observation_slides ::
  "Externals \<Rightarrow> SlideConfig \<Rightarrow> pyval list \<Rightarrow> Presentation \<Rightarrow> exn + Presentation" where
  "observation_slides ext config [] prs = Inr prs"
| "observation_slides ext config (observation # rest) prs =
     ebind (observation_slide ext config prs observation) (\<lambda>slide.
       observation_slides ext config rest (prs\<lparr>slides := slides prs @ [slide]\<rparr>))"

definition create_observation_slides ::
  "Externals \<Rightarrow> SlideConfig \<Rightarrow> pyval list \<Rightarrow> Presentation \<Rightarrow> exn + Presentation" where
  "create_observation_slides ext config observations prs =
     (if py_eq (mode config) (PStr ''static'') then Inr prs
      else observation_slides ext config observations prs)"

text \<open>The text of the notes of a finding slide: the template with the values put in, and
  then every run of sixteen spaces removed.\<close>

function str_replace :: "string \<Rightarrow> string \<Rightarrow> string \<Rightarrow> string" where
  "str_replace old new [] = []"
| "str_replace old new (c # s) =
     (if old \<noteq> [] \<and> startswith (c # s) old
      then new @ str_replace old new (drop (length old) (c # s))
      else c # str_replace old new s)"
  by pat_completeness auto
termination
  by (relation "measure (\<lambda>(old, new, s). length s)") (auto simp: neq_Nil_conv)

definition notes_text :: "string \<Rightarrow> string \<Rightarrow> string list \<Rightarrow> string" where
  "notes_text severity title sections =
     (let nl = [CHR 0x0A]; indent = replicate 16 (CHR '' '') in
      str_replace indent []
        (nl @ indent @ severity @ '': '' @ title @ nl
         @ concat (map (\<lambda>(heading, body). nl @ indent @ heading @ nl @ indent @ body @ nl)
             (zip [''AFFECTED ENTITIES'', ''IMPACT'', ''MITIGATION'', ''REPLICATION'',
                   ''HOST DETECTION'', ''NETWORK DETECTION'', ''REFERENCES''] sections))
         @ replicate 12 (CHR '' '')))"

definition str_capitalize :: "Externals \<Rightarrow> pyval \<Rightarrow> exn + string" where
  "str_capitalize ext v = (case v of PStr t \<Rightarrow> Inr (capitalize ext t) | _ \<Rightarrow> Inl AttributeError)"

text \<open>One round of the loop of \<^verbatim>\<open>create_finding_slides\<close>.\<close>

definition finding_slide ::
  "Externals \<Rightarrow> SlideConfig \<Rightarrow> Presentation \<Rightarrow> pyval \<Rightarrow> exn + Slide" where
  "finding_slide ext config prs finding =
     ebind (py_index (slide_layouts prs) (layout_index config)) (\<lambda>slide_layout.
     let slide = add_slide (next_ph_name ext) prs slide_layout;
         text_of = (\<lambda>k. ebind (py_get finding k (PStr [])) (\<lambda>v. Inr (PStr (prepare_for_pptx ext v))))
     in
     ebind (py_get finding ''title'' (PStr [])) (\<lambda>title.
     ebind (py_get finding ''severity'' (PStr [])) (\<lambda>severity.
     ebind (text_of ''description'') (\<lambda>description.
     ebind (text_of ''impact'') (\<lambda>impact.
     ebind (text_of ''affected_entities'') (\<lambda>affected_entities.
     ebind (text_of ''recommendation'') (\<lambda>mitigation.
     ebind (text_of ''recommendation'') (\<lambda>recommendation.
     ebind (text_of ''replication_steps'') (\<lambda>replication.
     ebind (text_of ''replication_steps'') (\<lambda>replication_steps.
     ebind (text_of ''host_detection_techniques'') (\<lambda>host_detection.
     ebind (text_of ''network_detection_techniques'') (\<lambda>network_detection.
     ebind (text_of ''references'') (\<lambda>references.
     ebind (py_get finding ''cvss_score'' (PStr [])) (\<lambda>cvss_score.
     ebind (py_get finding ''cvss_vector'' (PStr [])) (\<lambda>cvss_vector.
     let finding_context =
           [(''title'', title), (''severity'', severity), (''description'', description),
            (''impact'', impact), (''affected_entities'', affected_entities),
            (''mitigation'', mitigation), (''recommendation'', recommendation),
            (''replication'', replication), (''replication_steps'', replication_steps),
            (''host_detection'', host_detection), (''network_detection'', network_detection),
            (''references'', references), (''cvss_score'', cvss_score),
            (''cvss_vector'', cvss_vector)] in
     ebind (render_shapes ext finding_context (s_shapes slide) slide) (\<lambda>slide1.
     ebind (py_get finding ''evidence'' (PList [])) (\<lambda>evidence.
     ebind (py_iter evidence) (\<lambda>evs.
     ebind (add_evidences ext evs slide1) (\<lambda>slide2.
     ebind (py_getitem finding ''affected_entities'') (\<lambda>v1.
     ebind (py_getitem finding ''impact'') (\<lambda>v2.
     ebind (py_getitem finding ''host_detection_techniques'') (\<lambda>v3.
     ebind (py_getitem finding ''network_detection_techniques'') (\<lambda>v4.
     ebind (py_getitem finding ''recommendation'') (\<lambda>v5.
     ebind (py_getitem finding ''replication_steps'') (\<lambda>v6.
     ebind (py_getitem finding ''references'') (\<lambda>v7.
       (case s_notes slide2 of
          None \<Rightarrow> Inl AttributeError
        | Some text_frame \<Rightarrow>
            ebind (py_getitem finding ''severity'') (\<lambda>sev.
            ebind (str_capitalize ext sev) (\<lambda>sev'.
            ebind (py_getitem finding ''title'') (\<lambda>ttl.
              Inr (slide2\<lparr>s_notes := Some (text_frame @
                     [para_set_text new_paragraph
                        (notes_text sev' (format_value ext ttl)
                           (map (prepare_for_pptx ext) [v1, v2, v5, v6, v3, v4, v7]))])\<rparr>))))
       )))))))))))))))))))))))))))"

fun finding_slides ::
  "Externals \<Rightarrow> SlideConfig \<Rightarrow> pyval list \<Rightarrow> Presentation \<Rightarrow> exn + Presentation" where
  "finding_slides ext config [] prs = Inr prs"
| "finding_slides ext config (finding # rest) prs =
     ebind (finding_slide ext config prs finding) (\<lambda>slide.
       finding_slides ext config rest (prs\<lparr>slides := slides prs @ [slide]\<rparr>))"

definition create_finding_slides ::
  "Externals \<Rightarrow> SlideConfig \<Rightarrow> pyval list \<Rightarrow> Presentation \<Rightarrow> exn + Presentation" where
  "create_finding_slides ext config findings prs =
     (if py_eq (mode config) (PStr ''static'') then Inr prs
      else finding_slides ext config findings prs)"

section \<open>Example inputs\<close>

text \<open>A template of two layouts, each with a title and a footer placeholder, in either
  order; a namer that gives a copy the name of its placeholder; and a finding.\<close>

definition example_title_ph :: Shape where
  "example_title_ph =
     \<lparr>sh_name = ''Title 1'', sh_ph = Some (PhTitle, 0), sh_has_text_frame = True,
      sh_text_frame = Some [new_paragraph]\<rparr>"

definition example_footer_ph :: Shape where
  "example_footer_ph =
     \<lparr>sh_name = ''Footer Placeholder 2'', sh_ph = Some (PhFooter, 11),
      sh_has_text_frame = True,
      sh_text_frame = Some [para_set_text new_paragraph ''Confidential'']\<rparr>"

definition example_layout :: Layout where
  "example_layout = \<lparr>l_name = ''Title and Footer'', l_placeholders = [example_title_ph, example_footer_ph]\<rparr>"

definition example_layout_footer_first :: Layout where
  "example_layout_footer_first =
     \<lparr>l_name = ''Footer and Title'', l_placeholders = [example_footer_ph, example_title_ph]\<rparr>"

definition example_namer :: "Slide \<Rightarrow> Shape \<Rightarrow> string" where
  "example_namer slide ph = sh_name ph"

definition example_template :: Presentation where
  "example_template =
     \<lparr>slide_layouts = [example_layout, example_layout_footer_first], slides = [],
      notes_master_body = True\<rparr>"

definition example_finding :: pyval where
  "example_finding = PDict
     [(''title'', PStr ''Weak password policy''), (''severity'', PStr ''high''),
      (''description'', PStr ''d''), (''affected_entities'', PStr ''a''), (''impact'', PStr ''b''),
      (''host_detection_techniques'', PStr ''c''), (''network_detection_techniques'', PStr ''d''),
      (''recommendation'', PStr ''e''), (''replication_steps'', PStr ''f''),
      (''references'', PStr ''g'')]"

text \<open>Vocabulary of the statements below: the position of an entry as an integer, the
  invalid-mode errors among the messages, and the entries whose mode is neither
  \<^verbatim>\<open>static\<close> nor \<^verbatim>\<open>dynamic\<close>.\<close>

definition position_int :: "SlideConfig \<Rightarrow> int" where
  "position_int s = (case position s of PInt i \<Rightarrow> i | _ \<Rightarrow> 0)"

fun is_invalid_mode :: "message \<Rightarrow> bool" where
  "is_invalid_mode (InvalidMode md t) = True"
| "is_invalid_mode _ = False"

definition bad_mode :: "SlideConfig \<Rightarrow> bool" where
  "bad_mode s \<longleftrightarrow> mode s \<noteq> PStr ''static'' \<and> mode s \<noteq> PStr ''dynamic''"

text \<open>Whether a required slide type counts as not enabled, and a slide configuration
  whose fields have their annotated types.\<close>

definition not_enabled :: "SlideMappingManager \<Rightarrow> string \<Rightarrow> bool" where
  "not_enabled m r = (case get_slide_config m r of None \<Rightarrow> True | Some c \<Rightarrow> \<not> truthy (enabled c))"

definition mk_config :: "string \<Rightarrow> int \<Rightarrow> string \<Rightarrow> bool \<Rightarrow> int \<Rightarrow> SlideConfig" where
  "mk_config t li md en pos =
     \<lparr>stype = PStr t, layout_index = PInt li, mode = PStr md, enabled = PBool en,
      position = PInt pos\<rparr>"

section \<open>Properties of the slide mapping\<close>

lemma ebind_simps:
  "ebind (Inl e) f = Inl e"
  "ebind (Inr v) f = f v"
  by (simp_all add: ebind_def)

lemma from_dict_to_dict: "from_dict (to_dict s) = Inr s"
  by (simp add: from_dict_def to_dict_def ebind_def)

lemma from_dict_errors: "from_dict x = Inl e \<Longrightarrow> e = KeyError \<or> e = TypeError"
  by (cases x) (auto simp: from_dict_def ebind_def split: option.splits)

lemma parse_entries_eq: "parse_entries es acc = Inr (acc @ List.map_filter parsed es)"
proof (induction es arbitrary: acc)
  case Nil
  show ?case by (simp add: List.map_filter_simps)
next
  case (Cons s rest)
  show ?case
  proof (cases "from_dict s")
    case (Inl e)
    with from_dict_errors have "e = KeyError \<or> e = TypeError" by blast
    with Inl Cons show ?thesis by (auto simp: List.map_filter_simps parsed_def)
  next
    case (Inr c)
    with Cons show ?thesis by (simp add: List.map_filter_simps parsed_def)
  qed
qed

lemma parse_default: "parse_slides DEFAULT_MAPPING = Inr default_slides"
  by (simp add: parse_slides_def DEFAULT_MAPPING_def default_slides_def ebind_def
      default_entry_def default_config_def from_dict_def)

lemma parse_entries_to_dict: "parse_entries (map to_dict ss) acc = Inr (acc @ ss)"
  by (induction ss arbitrary: acc) (simp_all add: from_dict_to_dict)

lemma init_total: "\<exists>m. init md pres = Inr m"
  by (auto simp: init_def Let_def parse_default split: sum.splits)

lemma init_mapping_is_dict: "init md pres = Inr m \<Longrightarrow> is_dict (mapping_data m)"
  by (auto simp: init_def Let_def parse_default DEFAULT_MAPPING_def split: sum.splits if_splits)

lemma init_not_dict: "\<not> is_dict md \<Longrightarrow>
  init md pres = Inr \<lparr>presentation = pres, mapping_data = DEFAULT_MAPPING, slides_of = default_slides\<rparr>"
  by (simp add: init_def parse_default)

lemma init_dict_list: "map_of d ''slides'' = Some (PList es) \<Longrightarrow>
  init (PDict d) pres = Inr \<lparr>presentation = pres, mapping_data = PDict d, slides_of = List.map_filter parsed es\<rparr>"
  by (simp add: init_def parse_slides_def ebind_def parse_entries_eq)

lemma init_dict_no_slides: "map_of d ''slides'' = None \<Longrightarrow>
  init (PDict d) pres = Inr \<lparr>presentation = pres, mapping_data = PDict d, slides_of = []\<rparr>"
  by (simp add: init_def parse_slides_def ebind_def)

lemma init_dict_not_iterable: "map_of d ''slides'' = Some v \<Longrightarrow> py_iter v = Inl e \<Longrightarrow>
  init (PDict d) pres = Inr \<lparr>presentation = pres, mapping_data = DEFAULT_MAPPING, slides_of = default_slides\<rparr>"
  by (simp add: init_def parse_slides_def ebind_def parse_default[unfolded parse_slides_def ebind_def])

lemma parsed_missing_key:
  "k \<in> {''type'', ''layout_index'', ''mode'', ''position''} \<Longrightarrow> map_of e k = None \<Longrightarrow> parsed (PDict e) = None"
  by (auto simp: parsed_def from_dict_def ebind_def split: option.splits)

lemma parsed_to_dict: "parsed (to_dict c) = Some c"
  by (simp add: parsed_def from_dict_to_dict)

lemma parsed_title_only: "parsed (PDict [(''type'', PStr ''title'')]) = None"
  by (simp add: parsed_def from_dict_def ebind_def)

lemma mk_config_sel [simp]:
  "stype (mk_config t li md en pos) = PStr t"
  "layout_index (mk_config t li md en pos) = PInt li"
  "mode (mk_config t li md en pos) = PStr md"
  "enabled (mk_config t li md en pos) = PBool en"
  "position (mk_config t li md en pos) = PInt pos"
  by (simp_all add: mk_config_def)

lemma mk_config_well_typed [simp]: "well_typed (mk_config t li md en pos)"
  by (simp add: well_typed_def)

lemma mk_config_position_int [simp]: "position_int (mk_config t li md en pos) = pos"
  by (simp add: position_int_def)

lemma py_eq_PStr: "py_eq a (PStr s) = (a = PStr s)"
  by (cases a) auto

lemma get_slide_config_find:
  "get_slide_config m t = find (\<lambda>s. stype s = PStr t) (slides_of m)"
  by (simp add: get_slide_config_def py_eq_PStr)

text \<open>
  Claim C1, as the code has it. The constructor never raises, whatever the mapping input.
  When \<^verbatim>\<open>mapping_data\<close> is not a dict, or its \<^verbatim>\<open>slides\<close> value cannot be iterated,
  the manager holds the built-in default list of 14 entries, the first of type
  \<^verbatim>\<open>title\<close> and the last of type \<^verbatim>\<open>final\<close>. When the \<^verbatim>\<open>slides\<close> key is missing
  the slide list is empty. When \<^verbatim>\<open>slides\<close> is a list, the entries that parse are kept
  in order and the others are skipped; a dict entry that lacks one of the required keys
  \<^verbatim>\<open>type\<close>, \<^verbatim>\<open>layout_index\<close>, \<^verbatim>\<open>mode\<close>, \<^verbatim>\<open>position\<close> does not parse.
\<close>

theorem init_malformed_input:
  "\<exists>m. init md pres = Inr m
     \<and> (\<not> is_dict md \<longrightarrow> slides_of m = default_slides)
     \<and> (\<forall>d v e. md = PDict d \<and> map_of d ''slides'' = Some v \<and> py_iter v = Inl e
           \<longrightarrow> slides_of m = default_slides)
     \<and> (\<forall>d. md = PDict d \<and> map_of d ''slides'' = None \<longrightarrow> slides_of m = [])
     \<and> (\<forall>d es. md = PDict d \<and> map_of d ''slides'' = Some (PList es)
           \<longrightarrow> slides_of m = List.map_filter parsed es)
     \<and> (\<forall>e k. k \<in> {''type'', ''layout_index'', ''mode'', ''position''} \<and> map_of e k = None
           \<longrightarrow> parsed (PDict e) = None)
     \<and> length default_slides = 14
     \<and> stype (hd default_slides) = PStr ''title''
     \<and> stype (last default_slides) = PStr ''final''"
proof -
  obtain m where m: "init md pres = Inr m" using init_total by blast
  have a: "\<not> is_dict md \<longrightarrow> slides_of m = default_slides"
    using m by (auto simp: init_not_dict)
  have b: "\<forall>d v e. md = PDict d \<and> map_of d ''slides'' = Some v \<and> py_iter v = Inl e
           \<longrightarrow> slides_of m = default_slides"
    using m by (auto simp: init_dict_not_iterable)
  have c: "\<forall>d. md = PDict d \<and> map_of d ''slides'' = None \<longrightarrow> slides_of m = []"
    using m by (auto simp: init_dict_no_slides)
  have d: "\<forall>d es. md = PDict d \<and> map_of d ''slides'' = Some (PList es)
           \<longrightarrow> slides_of m = List.map_filter parsed es"
    using m by (auto simp: init_dict_list)
  have e: "\<forall>e k. k \<in> {''type'', ''layout_index'', ''mode'', ''position''} \<and> map_of e k = None
           \<longrightarrow> parsed (PDict e) = None"
    using parsed_missing_key by blast
  have f: "length default_slides = 14 \<and> stype (hd default_slides) = PStr ''title''
     \<and> stype (last default_slides) = PStr ''final''"
    by (simp add: default_slides_def default_config_def)
  from m a b c d e f show ?thesis by blast
qed

text \<open>An instance: a document of two entries, the first without its required fields.\<close>

theorem init_malformed_input_witness:
  "\<exists>m. init (PDict [(''slides'', PList [PDict [(''type'', PStr ''title'')],
                                        to_dict (default_config ''final'' 12 14)])]) None = Inr m
     \<and> slides_of m = [default_config ''final'' 12 14]"
proof -
  let ?es = "[PDict [(''type'', PStr ''title'')], to_dict (default_config ''final'' 12 14)]"
  have p: "List.map_filter parsed ?es = [default_config ''final'' 12 14]"
    by (simp add: parsed_to_dict parsed_title_only)
  from init_malformed_input [of "PDict [(''slides'', PList ?es)]" None]
  obtain m where "init (PDict [(''slides'', PList ?es)]) None = Inr m"
    and "slides_of m = List.map_filter parsed ?es"
    by auto
  with p show ?thesis by metis
qed

text \<open>
  Claim C1 as stated fails: a document without the \<^verbatim>\<open>slides\<close> key gives the empty
  slide list, and a document with an entry that lacks required fields keeps its other
  entries; neither is the default list.
\<close>

theorem init_malformed_counterexample:
  "init (PDict [(''version'', PInt 1)]) None
     = Inr \<lparr>presentation = None, mapping_data = PDict [(''version'', PInt 1)], slides_of = []\<rparr>
   \<and> init (PDict [(''slides'', PList [PDict [(''type'', PStr ''title'')],
                                      to_dict (default_config ''final'' 12 14)])]) None
     = Inr \<lparr>presentation = None,
            mapping_data = PDict [(''slides'', PList [PDict [(''type'', PStr ''title'')],
                                      to_dict (default_config ''final'' 12 14)])],
            slides_of = [default_config ''final'' 12 14]\<rparr>
   \<and> [] \<noteq> default_slides
   \<and> [default_config ''final'' 12 14] \<noteq> default_slides"
  by (simp add: init_dict_no_slides init_dict_list parsed_to_dict parsed_title_only
      default_slides_def)

text \<open>
  Claim C8 (round trip). For every mapping document \<open>D\<close>: the manager built from \<open>D\<close>
  exports a dict, and the manager built from that dict has the same slide list, entry by
  entry (the same type, layout index, mode, enabled flag and position). Every step
  returns.
\<close>

theorem to_dict_roundtrip:
  "\<exists>m1 d m2. init D pres = Inr m1 \<and> mgr_to_dict m1 = Inr d \<and> init d pres' = Inr m2
     \<and> slides_of m2 = slides_of m1"
proof -
  obtain m1 where m1: "init D pres = Inr m1" using init_total by blast
  then obtain md where md: "mapping_data m1 = PDict md"
    using init_mapping_is_dict by (cases "mapping_data m1") fastforce+
  define v where "v = (case map_of md ''version'' of None \<Rightarrow> PInt 1 | Some x \<Rightarrow> x)"
  define d where "d = PDict [(''version'', v), (''slides'', PList (map to_dict (slides_of m1)))]"
  have td: "mgr_to_dict m1 = Inr d"
    by (simp add: mgr_to_dict_def md ebind_def d_def v_def split: option.splits)
  have "init d pres' = Inr \<lparr>presentation = pres', mapping_data = d, slides_of = slides_of m1\<rparr>"
    by (simp add: d_def init_def parse_slides_def ebind_def parse_entries_to_dict)
  with m1 td show ?thesis by force
qed

text \<open>An instance: a document with one entry that is skipped and one that parses.\<close>

theorem to_dict_roundtrip_witness:
  "\<exists>m1 d m2. init (PDict [(''slides'', PList [PStr ''x'', to_dict (default_config ''final'' 12 14)])]) None = Inr m1
     \<and> mgr_to_dict m1 = Inr d \<and> init d None = Inr m2
     \<and> slides_of m2 = slides_of m1"
  using to_dict_roundtrip [of "PDict [(''slides'', PList [PStr ''x'', to_dict (default_config ''final'' 12 14)])]" None None]
  by simp

text \<open>
  Claim C5. For every slide type and fallback value, \<^verbatim>\<open>get_layout_index\<close> returns the
  fallback when the type has no configuration; and for a configuration whose layout index
  is an integer it returns the fallback when the configuration is disabled or when a
  presentation is bound and the index is greater than or equal to the number of its
  layouts, and the configured index in every other case.
\<close>

theorem get_layout_index_cases:
  "(get_slide_config m t = None \<longrightarrow> get_layout_index m t fb = fb)
   \<and> (\<forall>c i. get_slide_config m t = Some c \<and> layout_index c = PInt i \<longrightarrow>
        get_layout_index m t fb =
          (if \<not> truthy (enabled c)
              \<or> (\<exists>prs. presentation m = Some prs \<and> int (length (slide_layouts prs)) \<le> i)
           then fb else PInt i))"
  by (auto simp: get_layout_index_def py_ge_int_def split: option.splits)

text \<open>An instance: the default mapping's \<^verbatim>\<open>final\<close> entry (layout 12) with a template of
  one layout, and with no template bound.\<close>

theorem get_layout_index_cases_witness:
  "get_layout_index
     \<lparr>presentation = Some \<lparr>slide_layouts = [\<lparr>l_name = ''Title'', l_placeholders = []\<rparr>], slides = [],
                    notes_master_body = True\<rparr>,
      mapping_data = DEFAULT_MAPPING, slides_of = default_slides\<rparr> ''final'' (PInt 1) = PInt 1
   \<and> get_layout_index
     \<lparr>presentation = None, mapping_data = DEFAULT_MAPPING, slides_of = default_slides\<rparr>
       ''final'' (PInt 1) = PInt 12"
proof -
  let ?p = "\<lparr>slide_layouts = [\<lparr>l_name = ''Title'', l_placeholders = []\<rparr>], slides = [],
                    notes_master_body = True\<rparr>"
  let ?m = "\<lparr>presentation = Some ?p, mapping_data = DEFAULT_MAPPING, slides_of = default_slides\<rparr>"
  let ?n = "\<lparr>presentation = None, mapping_data = DEFAULT_MAPPING, slides_of = default_slides\<rparr>"
  have c: "get_slide_config ?m ''final'' = Some (default_config ''final'' 12 14)"
    "get_slide_config ?n ''final'' = Some (default_config ''final'' 12 14)"
    by (simp_all add: get_slide_config_find default_slides_def default_config_def)
  have l: "layout_index (default_config ''final'' 12 14) = PInt 12"
    "truthy (enabled (default_config ''final'' 12 14))"
    by (simp_all add: default_config_def)
  from get_layout_index_cases [of ?m "''final''" "PInt 1"] c l
  have 1: "get_layout_index ?m ''final'' (PInt 1) = PInt 1" by simp
  from get_layout_index_cases [of ?n "''final''" "PInt 1"] c l
  have 2: "get_layout_index ?n ''final'' (PInt 1) = PInt 12" by simp
  from 1 2 show ?thesis by simp
qed

lemma py_insort_int:
  assumes "\<forall>y\<in>set (x # ys). is_int (position y)"
  shows "py_insort position x ys = Inr (insort_key position_int x ys)"
  using assms
proof (induction ys)
  case Nil
  show ?case by simp
next
  case (Cons y ys)
  then obtain i j where "position x = PInt i" "position y = PInt j"
    by (cases "position x"; cases "position y") auto
  with Cons show ?case by (auto simp: position_int_def)
qed

lemma py_sorted_int:
  assumes "\<forall>y\<in>set xs. is_int (position y)"
  shows "py_sorted position xs = Inr (sort_key position_int xs)"
  using assms
proof (induction xs)
  case Nil
  show ?case by simp
next
  case (Cons x xs)
  then have "py_sorted position xs = Inr (sort_key position_int xs)" by simp
  moreover have "\<forall>y\<in>set (x # sort_key position_int xs). is_int (position y)"
    using Cons.prems by simp
  ultimately show ?case by (simp add: py_insort_int)
qed

text \<open>
  Claim C6. For a slide list whose enabled entries have integer positions,
  \<^verbatim>\<open>get_slides_by_position\<close> returns exactly the enabled entries (as a multiset),
  in ascending order of position, and the entries of each position stand in the order they
  have in the slide list (the sort is stable); the manager, and so its slide list, is
  unchanged.
\<close>

theorem get_slides_by_position_sorted:
  assumes "\<forall>s\<in>set (slides_of m). truthy (enabled s) \<longrightarrow> is_int (position s)"
  shows "\<exists>res. get_slides_by_position m = (Inr res, m)
     \<and> mset res = mset (filter (\<lambda>s. truthy (enabled s)) (slides_of m))
     \<and> sorted (map position_int res)
     \<and> (\<forall>k. filter (\<lambda>s. position_int s = k) res
            = filter (\<lambda>s. position_int s = k) (filter (\<lambda>s. truthy (enabled s)) (slides_of m)))"
proof -
  let ?en = "filter (\<lambda>s. truthy (enabled s)) (slides_of m)"
  have "\<forall>y\<in>set ?en. is_int (position y)" using assms by simp
  then have "py_sorted position ?en = Inr (sort_key position_int ?en)"
    by (rule py_sorted_int)
  then have "get_slides_by_position m = (Inr (sort_key position_int ?en), m)"
    by (simp add: get_slides_by_position_def)
  moreover have "mset (sort_key position_int ?en) = mset ?en" by simp
  moreover have "sorted (map position_int (sort_key position_int ?en))" by simp
  moreover have "\<forall>k. filter (\<lambda>s. position_int s = k) (sort_key position_int ?en)
            = filter (\<lambda>s. position_int s = k) ?en"
    by (simp add: sort_key_stable)
  ultimately show ?thesis by blast
qed

text \<open>An instance: four entries, one disabled, two enabled ones sharing position 3.\<close>

theorem get_slides_by_position_sorted_witness:
  "\<exists>res.
     get_slides_by_position \<lparr>presentation = None, mapping_data = DEFAULT_MAPPING,
               slides_of = [mk_config ''final'' 12 ''dynamic'' True 14,
                            mk_config ''agenda'' 1 ''dynamic'' False 3,
                            mk_config ''title'' 0 ''dynamic'' True 3,
                            mk_config ''introduction'' 1 ''dynamic'' True 3]\<rparr>
       = (Inr res, \<lparr>presentation = None, mapping_data = DEFAULT_MAPPING,
               slides_of = [mk_config ''final'' 12 ''dynamic'' True 14,
                            mk_config ''agenda'' 1 ''dynamic'' False 3,
                            mk_config ''title'' 0 ''dynamic'' True 3,
                            mk_config ''introduction'' 1 ''dynamic'' True 3]\<rparr>)
     \<and> res = [mk_config ''title'' 0 ''dynamic'' True 3,
              mk_config ''introduction'' 1 ''dynamic'' True 3,
              mk_config ''final'' 12 ''dynamic'' True 14]
     \<and> sorted (map position_int res)"
proof -
  let ?m = "\<lparr>presentation = None, mapping_data = DEFAULT_MAPPING,
               slides_of = [mk_config ''final'' 12 ''dynamic'' True 14,
                            mk_config ''agenda'' 1 ''dynamic'' False 3,
                            mk_config ''title'' 0 ''dynamic'' True 3,
                            mk_config ''introduction'' 1 ''dynamic'' True 3]\<rparr>"
  have h: "\<forall>s\<in>set (slides_of ?m). truthy (enabled s) \<longrightarrow> is_int (position s)" by simp
  from get_slides_by_position_sorted [OF h] obtain res where
    r: "get_slides_by_position ?m = (Inr res, ?m)" "sorted (map position_int res)" by blast
  have "get_slides_by_position ?m = (Inr [mk_config ''title'' 0 ''dynamic'' True 3,
              mk_config ''introduction'' 1 ''dynamic'' True 3,
              mk_config ''final'' 12 ''dynamic'' True 14], ?m)"
    by (simp add: get_slides_by_position_def)
  with r show ?thesis by simp
qed

lemma unknown_types_str:
  assumes "\<forall>s\<in>set ss. is_str (stype s)"
  shows "\<exists>us. unknown_types ss w = Inr (w @ us) \<and> DuplicatePositions \<notin> set us
            \<and> (\<forall>r. RequiredNotEnabled r \<notin> set us)"
  using assms
proof (induction ss arbitrary: w)
  case Nil
  show ?case by simp
next
  case (Cons s ss)
  then obtain t where t: "stype s = PStr t" by (cases "stype s") auto
  from Cons have ih: "\<And>w'. \<exists>us. unknown_types ss w' = Inr (w' @ us) \<and> DuplicatePositions \<notin> set us
            \<and> (\<forall>r. RequiredNotEnabled r \<notin> set us)" by simp
  show ?case
  proof (cases "KStr t \<in> set (map KStr SLIDE_TYPES) \<or> startswith t ''custom_''")
    case True
    with t ih [of w] show ?thesis by auto
  next
    case False
    from ih [of "w @ [UnknownSlideType (stype s)]"] obtain us where
      "unknown_types ss (w @ [UnknownSlideType (stype s)]) = Inr (w @ [UnknownSlideType (stype s)] @ us)"
      "DuplicatePositions \<notin> set us" "\<forall>r. RequiredNotEnabled r \<notin> set us" by auto
    with False t show ?thesis by auto
  qed
qed

lemma invalid_modes_eq:
  "invalid_modes ss errs = errs @ map (\<lambda>s. InvalidMode (mode s) (stype s)) (filter bad_mode ss)"
  by (induction ss arbitrary: errs) (simp_all add: py_eq_PStr bad_mode_def)

lemma layout_errors_shape:
  "\<exists>ls. layout_errors n ss errs = errs @ ls \<and> (\<forall>l\<in>set ls. \<not> is_invalid_mode l)"
proof (induction ss arbitrary: errs)
  case Nil
  show ?case by simp
next
  case (Cons s ss)
  let ?e = "LayoutIndexExceeds (layout_index s) (stype s) (n - 1)"
  from Cons [of "errs @ [?e]"] obtain ls where
    "layout_errors n ss (errs @ [?e]) = errs @ ([?e] @ ls)" "\<forall>l\<in>set ls. \<not> is_invalid_mode l"
    by auto
  then have a: "\<exists>ls. layout_errors n ss (errs @ [?e]) = errs @ ls \<and> (\<forall>l\<in>set ls. \<not> is_invalid_mode l)"
    by (intro exI [of _ "[?e] @ ls"]) simp
  have b: "\<exists>ls. errs = errs @ ls \<and> (\<forall>l\<in>set ls. \<not> is_invalid_mode l)" by simp
  from a b Cons [of errs] show ?case
    by (simp split: sum.splits bool.splits)
qed

lemma required_types_eq:
  "required_types m reqs w = w @ map RequiredNotEnabled (filter (not_enabled m) reqs)"
  by (induction reqs arbitrary: w) (simp_all add: not_enabled_def split: option.splits)

lemma py_hash_keys_ints:
  assumes "\<forall>v\<in>set vs. is_int v"
  shows "py_hash_keys vs = Inr (map (\<lambda>v. KNum (case v of PInt i \<Rightarrow> i | _ \<Rightarrow> 0)) vs)"
  using assms
proof (induction vs)
  case Nil
  show ?case by simp
next
  case (Cons v vs)
  then obtain i where "v = PInt i" by (cases v) auto
  with Cons show ?case by simp
qed

lemma py_len_set_ints:
  assumes "\<forall>v\<in>set vs. is_int v"
  shows "py_len_set vs = Inr (card (set vs))"
proof -
  let ?k = "\<lambda>v. KNum (case v of PInt i \<Rightarrow> i | _ \<Rightarrow> 0)"
  have "inj_on ?k (set vs)"
  proof (rule inj_onI)
    fix a b assume "a \<in> set vs" "b \<in> set vs" "?k a = ?k b"
    with assms show "a = b" by (cases a; cases b) auto
  qed
  then have "card (set (map ?k vs)) = card (set vs)"
    by (simp add: card_image)
  then show ?thesis
    by (simp add: py_len_set_def py_hash_keys_ints [OF assms] length_remdups_card_conv)
qed

text \<open>
  Claim C9, as the code has it. For a manager whose entries have their annotated types,
  \<^verbatim>\<open>validate\<close> returns a pair (warnings, errors) and leaves the manager as it was.
  The duplicate-position warning is among the warnings exactly once when two
  \<^emph>\<open>enabled\<close> entries share a position (position 3, say), and not at all when the
  positions of the enabled entries are distinct: the check looks at enabled entries only.
  When exactly one entry has a mode that is neither \<^verbatim>\<open>static\<close> nor \<^verbatim>\<open>dynamic\<close>
  (\<^verbatim>\<open>dynamic-ish\<close>, say), the errors hold exactly one invalid-mode error, the one for
  that entry. When the entry of type \<^verbatim>\<open>final\<close> is disabled, the warnings hold the
  missing-required-type warning for \<^verbatim>\<open>final\<close>.
\<close>

theorem validate_reports:
  assumes wt: "\<forall>s\<in>set (slides_of m). well_typed s"
  shows "\<exists>ws es. validate m = (Inr (ws, es), m)
     \<and> ((\<exists>i j. i < j \<and> j < length (slides_of m)
            \<and> truthy (enabled (slides_of m ! i)) \<and> truthy (enabled (slides_of m ! j))
            \<and> position (slides_of m ! i) = position (slides_of m ! j))
          \<longrightarrow> count_list ws DuplicatePositions = 1)
     \<and> (distinct (map position (filter (\<lambda>s. truthy (enabled s)) (slides_of m)))
          \<longrightarrow> count_list ws DuplicatePositions = 0)
     \<and> (\<forall>s. filter bad_mode (slides_of m) = [s]
          \<longrightarrow> filter is_invalid_mode es = [InvalidMode (mode s) (stype s)])
     \<and> ((\<exists>c. get_slide_config m ''final'' = Some c \<and> \<not> truthy (enabled c))
          \<longrightarrow> RequiredNotEnabled ''final'' \<in> set ws)"
proof -
  let ?ss = "slides_of m"
  let ?en = "filter (\<lambda>s. truthy (enabled s)) ?ss"
  let ?pos = "map position ?en"
  let ?w0 = "if length ?pos \<noteq> card (set ?pos) then [DuplicatePositions] else []"
  have ints: "\<forall>v\<in>set ?pos. is_int v" using wt by (auto simp: well_typed_def)
  have strs: "\<forall>s\<in>set ?ss. is_str (stype s)" using wt by (auto simp: well_typed_def)
  from unknown_types_str [OF strs, of ?w0] obtain us where
    us: "unknown_types ?ss ?w0 = Inr (?w0 @ us)" "DuplicatePositions \<notin> set us"
    "\<forall>r. RequiredNotEnabled r \<notin> set us" by blast
  define errs0 where "errs0 = map (\<lambda>s. InvalidMode (mode s) (stype s)) (filter bad_mode ?ss)"
  obtain ls where ls: "(case presentation m of None \<Rightarrow> errs0
      | Some prs \<Rightarrow> layout_errors (int (length (slide_layouts prs))) ?ss errs0) = errs0 @ ls"
    "\<forall>l\<in>set ls. \<not> is_invalid_mode l"
  proof (cases "presentation m")
    case None
    then show ?thesis using that [of "[]"] by simp
  next
    case (Some prs)
    with layout_errors_shape [of "int (length (slide_layouts prs))" ?ss errs0]
    show ?thesis using that by auto
  qed
  define ws where "ws = (?w0 @ us) @ map RequiredNotEnabled (filter (not_enabled m) [''title'', ''final''])"
  define es where "es = errs0 @ ls"
  have v: "validate m = (Inr (ws, es), m)"
    using us(1) ls(1) [unfolded errs0_def]
    by (simp add: validate_def Let_def ebind_def py_len_set_ints [OF ints] invalid_modes_eq
        required_types_eq ws_def es_def errs0_def)
  have cnt: "count_list ws DuplicatePositions = (if distinct ?pos then 0 else 1)"
  proof -
    have "count_list us DuplicatePositions = 0" using us(2) by (simp add: count_list_0_iff)
    moreover have "count_list (map RequiredNotEnabled (filter (not_enabled m) [''title'', ''final''])) DuplicatePositions = 0"
      by (auto simp: count_list_0_iff)
    moreover have "distinct ?pos \<longleftrightarrow> length ?pos = card (set ?pos)"
      using distinct_card card_distinct by metis
    ultimately show ?thesis by (simp add: ws_def)
  qed
  have dup: "(\<exists>i j. i < j \<and> j < length ?ss
            \<and> truthy (enabled (?ss ! i)) \<and> truthy (enabled (?ss ! j))
            \<and> position (?ss ! i) = position (?ss ! j))
          \<longrightarrow> count_list ws DuplicatePositions = 1"
  proof
    assume "\<exists>i j. i < j \<and> j < length ?ss
            \<and> truthy (enabled (?ss ! i)) \<and> truthy (enabled (?ss ! j))
            \<and> position (?ss ! i) = position (?ss ! j)"
    then obtain i j where ij: "i < j" "j < length ?ss" "truthy (enabled (?ss ! i))"
      "truthy (enabled (?ss ! j))" "position (?ss ! i) = position (?ss ! j)" by blast
    have "\<not> distinct ?pos"
    proof
      assume d: "distinct ?pos"
      then have d1: "distinct ?en" by (simp add: distinct_map)
      from d have inj: "inj_on position (set ?en)" by (simp add: distinct_map)
      have "?ss ! i \<in> set ?en" "?ss ! j \<in> set ?en" using ij by auto
      with inj ij(5) have eq: "?ss ! i = ?ss ! j" by (auto dest: inj_onD)
      have "?ss = take j ?ss @ ?ss ! j # drop (Suc j) ?ss"
        using ij(2) by (simp add: id_take_nth_drop)
      then have "?en = filter (\<lambda>s. truthy (enabled s)) (take j ?ss) @ ?ss ! j # filter (\<lambda>s. truthy (enabled s)) (drop (Suc j) ?ss)"
        using ij(4) by (metis filter.simps(2) filter_append)
      moreover have "?ss ! i \<in> set (filter (\<lambda>s. truthy (enabled s)) (take j ?ss))"
        using ij by (auto simp: in_set_conv_nth intro!: exI [of _ i])
      ultimately show False using d1 eq by (metis distinct_append distinct.simps(2) disjoint_iff list.set_intros(1))
    qed
    with cnt show "count_list ws DuplicatePositions = 1" by simp
  qed
  have nodup: "distinct ?pos \<longrightarrow> count_list ws DuplicatePositions = 0" using cnt by simp
  have modes: "\<forall>s. filter bad_mode ?ss = [s]
          \<longrightarrow> filter is_invalid_mode es = [InvalidMode (mode s) (stype s)]"
  proof (intro allI impI)
    fix s assume "filter bad_mode ?ss = [s]"
    then have "errs0 = [InvalidMode (mode s) (stype s)]" by (simp add: errs0_def)
    moreover have "filter is_invalid_mode ls = []" using ls(2) by (simp add: filter_empty_conv)
    ultimately show "filter is_invalid_mode es = [InvalidMode (mode s) (stype s)]"
      by (simp add: es_def)
  qed
  have fin: "(\<exists>c. get_slide_config m ''final'' = Some c \<and> \<not> truthy (enabled c))
          \<longrightarrow> RequiredNotEnabled ''final'' \<in> set ws"
    by (auto simp: ws_def not_enabled_def)
  from v dup nodup modes fin show ?thesis by blast
qed

text \<open>An instance: two enabled entries at position 3, one of them with the mode
  \<^verbatim>\<open>dynamic-ish\<close>, and a disabled \<^verbatim>\<open>final\<close> entry.\<close>

theorem validate_reports_witness:
  "\<exists>ws es.
     validate \<lparr>presentation = None, mapping_data = DEFAULT_MAPPING,
               slides_of = [mk_config ''title'' 0 ''dynamic'' True 3,
                            mk_config ''agenda'' 1 ''dynamic-ish'' True 3,
                            mk_config ''final'' 12 ''static'' False 14]\<rparr>
       = (Inr (ws, es),
          \<lparr>presentation = None, mapping_data = DEFAULT_MAPPING,
               slides_of = [mk_config ''title'' 0 ''dynamic'' True 3,
                            mk_config ''agenda'' 1 ''dynamic-ish'' True 3,
                            mk_config ''final'' 12 ''static'' False 14]\<rparr>)
     \<and> count_list ws DuplicatePositions = 1
     \<and> filter is_invalid_mode es = [InvalidMode (PStr ''dynamic-ish'') (PStr ''agenda'')]
     \<and> RequiredNotEnabled ''final'' \<in> set ws"
proof -
  let ?ss = "[mk_config ''title'' 0 ''dynamic'' True 3,
              mk_config ''agenda'' 1 ''dynamic-ish'' True 3,
              mk_config ''final'' 12 ''static'' False 14]"
  let ?m = "\<lparr>presentation = None, mapping_data = DEFAULT_MAPPING, slides_of = ?ss\<rparr>"
  have wt: "\<forall>s\<in>set (slides_of ?m). well_typed s" by simp
  have dup: "\<exists>i j. i < j \<and> j < length (slides_of ?m)
            \<and> truthy (enabled (slides_of ?m ! i)) \<and> truthy (enabled (slides_of ?m ! j))
            \<and> position (slides_of ?m ! i) = position (slides_of ?m ! j)"
    by (intro exI [of _ 0] exI [of _ 1]) simp
  have bad: "filter bad_mode (slides_of ?m) = [mk_config ''agenda'' 1 ''dynamic-ish'' True 3]"
    by (simp add: bad_mode_def)
  have fin: "\<exists>c. get_slide_config ?m ''final'' = Some c \<and> \<not> truthy (enabled c)"
    by (simp add: get_slide_config_find)
  from validate_reports [OF wt] obtain ws es where r: "validate ?m = (Inr (ws, es), ?m)"
     "(\<exists>i j. i < j \<and> j < length (slides_of ?m)
            \<and> truthy (enabled (slides_of ?m ! i)) \<and> truthy (enabled (slides_of ?m ! j))
            \<and> position (slides_of ?m ! i) = position (slides_of ?m ! j))
          \<longrightarrow> count_list ws DuplicatePositions = 1"
     "\<forall>s. filter bad_mode (slides_of ?m) = [s]
          \<longrightarrow> filter is_invalid_mode es = [InvalidMode (mode s) (stype s)]"
     "(\<exists>c. get_slide_config ?m ''final'' = Some c \<and> \<not> truthy (enabled c))
          \<longrightarrow> RequiredNotEnabled ''final'' \<in> set ws"
    by blast
  from r(2) dup have 1: "count_list ws DuplicatePositions = 1" by blast
  from r(3) bad have 2: "filter is_invalid_mode es = [InvalidMode (PStr ''dynamic-ish'') (PStr ''agenda'')]"
    by (metis mk_config_sel(1) mk_config_sel(3))
  from r(4) fin have 3: "RequiredNotEnabled ''final'' \<in> set ws" by blast
  from r(1) 1 2 3 show ?thesis by blast
qed

text \<open>
  Claim C9 as stated fails: in this document two entries share position 3, one of them
  disabled, and \<^verbatim>\<open>validate\<close> returns no warning at all.
\<close>

theorem validate_duplicate_counterexample:
  "init (PDict [(''slides'', PList
           [to_dict (mk_config ''title'' 0 ''dynamic'' True 3),
            to_dict (mk_config ''agenda'' 1 ''dynamic'' False 3),
            to_dict (mk_config ''final'' 12 ''dynamic'' True 14)])]) None
     = Inr \<lparr>presentation = None,
            mapping_data = PDict [(''slides'', PList
              [to_dict (mk_config ''title'' 0 ''dynamic'' True 3),
               to_dict (mk_config ''agenda'' 1 ''dynamic'' False 3),
               to_dict (mk_config ''final'' 12 ''dynamic'' True 14)])],
            slides_of = [mk_config ''title'' 0 ''dynamic'' True 3,
                         mk_config ''agenda'' 1 ''dynamic'' False 3,
                         mk_config ''final'' 12 ''dynamic'' True 14]\<rparr>
   \<and> fst (validate \<lparr>presentation = None,
            mapping_data = PDict [(''slides'', PList
              [to_dict (mk_config ''title'' 0 ''dynamic'' True 3),
               to_dict (mk_config ''agenda'' 1 ''dynamic'' False 3),
               to_dict (mk_config ''final'' 12 ''dynamic'' True 14)])],
            slides_of = [mk_config ''title'' 0 ''dynamic'' True 3,
                         mk_config ''agenda'' 1 ''dynamic'' False 3,
                         mk_config ''final'' 12 ''dynamic'' True 14]\<rparr>)
     = Inr ([], [])"
proof -
  have "fst (validate \<lparr>presentation = None,
            mapping_data = PDict [(''slides'', PList
              [to_dict (mk_config ''title'' 0 ''dynamic'' True 3),
               to_dict (mk_config ''agenda'' 1 ''dynamic'' False 3),
               to_dict (mk_config ''final'' 12 ''dynamic'' True 14)])],
            slides_of = [mk_config ''title'' 0 ''dynamic'' True 3,
                         mk_config ''agenda'' 1 ''dynamic'' False 3,
                         mk_config ''final'' 12 ''dynamic'' True 14]\<rparr>)
     = Inr ([], [])"
    by (simp add: validate_def Let_def ebind_def py_len_set_def SLIDE_TYPES_def
        get_slide_config_find)
  then show ?thesis by (simp add: init_dict_list parsed_to_dict)
qed

text \<open>
  Claim C10. \<^verbatim>\<open>extract_layouts_from_pptx\<close> returns for every path and never raises:
  when the file opens, one dict of \<^verbatim>\<open>index\<close> and \<^verbatim>\<open>name\<close> per layout, in the
  template's order; when opening or reading fails, the empty list.
\<close>

theorem extract_layouts_total:
  "extract_layouts_from_pptx opener path =
     Inr (case opener path of
            Inl e \<Rightarrow> []
          | Inr prs \<Rightarrow>
              map (\<lambda>i. PDict [(''index'', PInt (int i)),
                              (''name'', PStr (l_name (slide_layouts prs ! i)))])
                  [0..<length (slide_layouts prs)])"
proof (cases "opener path")
  case (Inl e)
  then show ?thesis by (simp add: extract_layouts_from_pptx_def ebind_def)
next
  case (Inr prs)
  have "map layout_entry (enumerate 0 (slide_layouts prs))
      = map (\<lambda>i. PDict [(''index'', PInt (int i)),
                              (''name'', PStr (l_name (slide_layouts prs ! i)))])
                  [0..<length (slide_layouts prs)]"
    by (rule nth_equalityI) (simp_all add: layout_entry_def nth_enumerate_eq)
  with Inr show ?thesis by (simp add: extract_layouts_from_pptx_def ebind_def)
qed

text \<open>An instance: a loader that knows one file, a template of two layouts.\<close>

theorem extract_layouts_total_witness:
  "extract_layouts_from_pptx
     (\<lambda>p. if p = ''template.pptx''
          then Inr \<lparr>slide_layouts = [\<lparr>l_name = ''Title Slide'', l_placeholders = []\<rparr>,
                                    \<lparr>l_name = ''Title and Content'', l_placeholders = []\<rparr>],
                    slides = [],
                    notes_master_body = True\<rparr>
          else Inl PackageNotFoundError) ''template.pptx''
     = Inr [PDict [(''index'', PInt 0), (''name'', PStr ''Title Slide'')],
            PDict [(''index'', PInt 1), (''name'', PStr ''Title and Content'')]]
   \<and> extract_layouts_from_pptx
     (\<lambda>p. if p = ''template.pptx''
          then Inr \<lparr>slide_layouts = [\<lparr>l_name = ''Title Slide'', l_placeholders = []\<rparr>,
                                    \<lparr>l_name = ''Title and Content'', l_placeholders = []\<rparr>],
                    slides = [],
                    notes_master_body = True\<rparr>
          else Inl PackageNotFoundError) ''missing.pptx''
     = Inr []"
proof -
  let ?o = "\<lambda>p. if p = ''template.pptx''
          then Inr \<lparr>slide_layouts = [\<lparr>l_name = ''Title Slide'', l_placeholders = []\<rparr>,
                                    \<lparr>l_name = ''Title and Content'', l_placeholders = []\<rparr>],
                    slides = [],
                    notes_master_body = True\<rparr>
          else Inl PackageNotFoundError"
  have u: "[0..<2] = [0, 1]" by (simp add: upt_rec)
  from extract_layouts_total [of ?o "''template.pptx''"] u
  have 1: "extract_layouts_from_pptx ?o ''template.pptx''
     = Inr [PDict [(''index'', PInt 0), (''name'', PStr ''Title Slide'')],
            PDict [(''index'', PInt 1), (''name'', PStr ''Title and Content'')]]"
    by simp
  from extract_layouts_total [of ?o "''missing.pptx''"]
  have 2: "extract_layouts_from_pptx ?o ''missing.pptx'' = Inr []" by simp
  from 1 2 show ?thesis by simp
qed

section \<open>Properties of the exporter\<close>

lemma runs_of_items_replaced:
  "runs_of_items (remove_extra_runs (set_first_run_text t (clear_run_texts items)))
     = (case runs_of_items items of [] \<Rightarrow> [] | r # rs \<Rightarrow> [r\<lparr>r_text := t\<rparr>])"
proof (induction items)
  case Nil
  show ?case by simp
next
  case (Cons i items)
  have nr: "\<And>xs. runs_of_items (filter (\<lambda>i. \<not> is_run i) xs) = []"
  proof -
    fix xs show "runs_of_items (filter (\<lambda>i. \<not> is_run i) xs) = []"
      by (induction xs rule: runs_of_items.induct) simp_all
  qed
  show ?case
  proof (cases i)
    case (R r)
    then show ?thesis by (simp add: nr)
  next
    case Br
    with Cons show ?thesis by simp
  next
    case (Fld k x)
    with Cons show ?thesis by simp
  qed
qed

text \<open>
  Claim C7. For a shape that has a text frame, with \<open>p\<close> the first paragraph of the
  frame (the empty paragraph that the library makes when the shape has no text body yet):
  when \<open>p\<close> has at least one run, \<^verbatim>\<open>set_text_preserving_format\<close> leaves the shape
  with that one paragraph, whose only run is the former first run with the new text and
  its font unchanged (level and alignment of the paragraph stay); when \<open>p\<close> has no run,
  the text is assigned to the paragraph; in both cases every other paragraph is gone.
\<close>

theorem set_text_preserving_format_result:
  assumes "sh_has_text_frame sh" and "shape_frame sh = p # ps"
  shows "(\<forall>r rs. runs p = r # rs \<longrightarrow>
            (\<exists>p'. set_text_preserving_format (Some sh) t = Some (sh\<lparr>sh_text_frame := Some [p']\<rparr>)
                 \<and> runs p' = [r\<lparr>r_text := t\<rparr>]
                 \<and> r_text (hd (runs p')) = t \<and> r_font (hd (runs p')) = r_font r
                 \<and> p_level p' = p_level p \<and> p_alignment p' = p_alignment p))
       \<and> (runs p = [] \<longrightarrow>
            set_text_preserving_format (Some sh) t
              = Some (sh\<lparr>sh_text_frame := Some [para_set_text p t]\<rparr>))"
  using assms
  by (auto simp: set_text_preserving_format_def runs_def runs_of_items_replaced)

text \<open>Two instances. A title with a bold run \<^verbatim>\<open>Hello\<close>, a line break and a second run,
  then a second paragraph: after the call one paragraph with the bold run
  \<^verbatim>\<open>Goodbye\<close>. A footer placeholder that has no text body yet: after the call one
  paragraph with the text, set at paragraph level.\<close>

theorem set_text_preserving_format_result_witness:
  "set_text_preserving_format
     (Some \<lparr>sh_name = ''Title 1'', sh_ph = Some (PhTitle, 0), sh_has_text_frame = True,
            sh_text_frame = Some
              [\<lparr>p_items = [R \<lparr>r_text = ''Hello'', r_font = default_font\<lparr>f_bold := Some True\<rparr>\<rparr>,
                           Br,
                           R \<lparr>r_text = '' world'', r_font = default_font\<rparr>],
                p_level = 0, p_alignment = None\<rparr>,
               \<lparr>p_items = [R \<lparr>r_text = ''second'', r_font = default_font\<rparr>],
                p_level = 1, p_alignment = None\<rparr>]\<rparr>) ''Goodbye''
   = Some \<lparr>sh_name = ''Title 1'', sh_ph = Some (PhTitle, 0), sh_has_text_frame = True,
            sh_text_frame = Some
              [\<lparr>p_items = [R \<lparr>r_text = ''Goodbye'', r_font = default_font\<lparr>f_bold := Some True\<rparr>\<rparr>,
                           Br],
                p_level = 0, p_alignment = None\<rparr>]\<rparr>
   \<and> set_text_preserving_format
     (Some \<lparr>sh_name = ''Footer Placeholder 3'', sh_ph = Some (PhFooter, 11),
            sh_has_text_frame = True, sh_text_frame = None\<rparr>) ''Goodbye''
   = Some \<lparr>sh_name = ''Footer Placeholder 3'', sh_ph = Some (PhFooter, 11),
            sh_has_text_frame = True,
            sh_text_frame = Some
              [\<lparr>p_items = [R \<lparr>r_text = ''Goodbye'', r_font = default_font\<rparr>],
                p_level = 0, p_alignment = None\<rparr>]\<rparr>"
proof -
  let ?r = "\<lparr>r_text = ''Hello'', r_font = default_font\<lparr>f_bold := Some True\<rparr>\<rparr>"
  let ?p = "\<lparr>p_items = [R ?r, Br, R \<lparr>r_text = '' world'', r_font = default_font\<rparr>],
                p_level = 0, p_alignment = None\<rparr>"
  let ?q = "\<lparr>p_items = [R \<lparr>r_text = ''second'', r_font = default_font\<rparr>],
                p_level = 1, p_alignment = None\<rparr>"
  let ?sh = "\<lparr>sh_name = ''Title 1'', sh_ph = Some (PhTitle, 0), sh_has_text_frame = True,
              sh_text_frame = Some [?p, ?q]\<rparr>"
  let ?ft = "\<lparr>sh_name = ''Footer Placeholder 3'', sh_ph = Some (PhFooter, 11),
              sh_has_text_frame = True, sh_text_frame = None\<rparr>"
  have h: "sh_has_text_frame ?sh" "sh_has_text_frame ?ft" by simp_all
  have f: "shape_frame ?sh = ?p # [?q]" by (simp add: shape_frame_def)
  have r: "runs ?p = ?r # [\<lparr>r_text = '' world'', r_font = default_font\<rparr>]" by (simp add: runs_def)
  from set_text_preserving_format_result [OF h(1) f, of "''Goodbye''"] r
  obtain p' where p': "set_text_preserving_format (Some ?sh) ''Goodbye''
      = Some (?sh\<lparr>sh_text_frame := Some [p']\<rparr>)"
    by blast
  have 1: "set_text_preserving_format (Some ?sh) ''Goodbye''
      = Some (?sh\<lparr>sh_text_frame := Some
           [\<lparr>p_items = [R (?r\<lparr>r_text := ''Goodbye''\<rparr>), Br], p_level = 0, p_alignment = None\<rparr>]\<rparr>)"
    using p' by (simp add: set_text_preserving_format_def shape_frame_def runs_def)
  have g: "shape_frame ?ft = new_paragraph # []" by (simp add: shape_frame_def)
  have e: "runs new_paragraph = []" by (simp add: runs_def new_paragraph_def)
  from set_text_preserving_format_result [OF h(2) g, of "''Goodbye''"] e
  have "set_text_preserving_format (Some ?ft) ''Goodbye''
      = Some (?ft\<lparr>sh_text_frame := Some [para_set_text new_paragraph ''Goodbye'']\<rparr>)"
    by blast
  then have 2: "set_text_preserving_format (Some ?ft) ''Goodbye''
      = Some (?ft\<lparr>sh_text_frame := Some
           [\<lparr>p_items = [R \<lparr>r_text = ''Goodbye'', r_font = default_font\<rparr>],
             p_level = 0, p_alignment = None\<rparr>]\<rparr>)"
    by (simp add: para_set_text_def append_text_def new_paragraph_def)
  from 1 2 show ?thesis by simp
qed

lemma render_paragraph_total:
  "\<exists>w'. render_paragraph render is_html converter pid w = Inr w'"
  by (cases "render_paragraph_body render is_html converter pid w")
     (auto simp: render_paragraph_def Let_def split: option.splits)

lemma render_paragraphs_total:
  "\<exists>w'. render_paragraphs render is_html converter pids w = Inr w'"
proof (induction pids arbitrary: w)
  case Nil
  show ?case by simp
next
  case (Cons pid pids)
  obtain w1 where "render_paragraph render is_html converter pid w = Inr w1"
    using render_paragraph_total by blast
  with Cons [of w1] show ?case by (simp add: ebind_simps)
qed

text \<open>
  Claim C4. For a paragraph whose reconstructed text contains both \<^verbatim>\<open>{{\<close> and
  \<^verbatim>\<open>}}\<close>: when evaluating it raises the undefined-variable error, the round of the
  loop returns without an exception and with the state it started from, so the runs and
  the text of the paragraph (and of every other) are as they were; the loop goes on with
  the remaining paragraphs from that state, and the whole call returns.
\<close>

theorem undefined_variable_leaves_paragraph:
  assumes "str_contains ''{{'' (original_text (w_paras w pid))"
    and "str_contains ''}}'' (original_text (w_paras w pid))"
    and "render (original_text (w_paras w pid)) = Inl UndefinedError"
  shows "render_paragraph render is_html converter pid w = Inr w
       \<and> render_paragraphs render is_html converter (pid # rest) w
           = render_paragraphs render is_html converter rest w
       \<and> (\<exists>w'. render_paragraphs render is_html converter (pid # rest) w = Inr w')"
proof -
  have 1: "render_paragraph render is_html converter pid w = Inr w"
    using assms
    by (auto simp: render_paragraph_def render_paragraph_body_def Let_def)
  then have 2: "render_paragraphs render is_html converter (pid # rest) w
           = render_paragraphs render is_html converter rest w"
    by (simp add: ebind_simps)
  from render_paragraphs_total [of render is_html converter "pid # rest" w] 1 2
  show ?thesis by blast
qed

text \<open>An instance: a frame of one paragraph with a misspelt variable.\<close>

theorem undefined_variable_witness:
  "render_jinja2_in_textframe (\<lambda>t. Inl UndefinedError) (\<lambda>t. Inr False) (\<lambda>t w. (None, w))
     \<lparr>w_paras = (\<lambda>i. para_set_text new_paragraph ''Finding: {{ titel }}''),
      w_frame = [0], w_rest = ()\<rparr>
   = Inr \<lparr>w_paras = (\<lambda>i. para_set_text new_paragraph ''Finding: {{ titel }}''),
      w_frame = [0], w_rest = ()\<rparr>"
proof -
  let ?w = "\<lparr>w_paras = (\<lambda>i. para_set_text new_paragraph ''Finding: {{ titel }}''),
      w_frame = [0], w_rest = ()\<rparr>"
  have t: "original_text (w_paras ?w 0) = ''Finding: {{ titel }}''"
    by (simp add: original_text_def runs_def para_set_text_def append_text_def)
  have a: "str_contains ''{{'' (original_text (w_paras ?w 0))"
    and b: "str_contains ''}}'' (original_text (w_paras ?w 0))"
    unfolding t by simp_all
  have c: "(\<lambda>t. Inl UndefinedError) (original_text (w_paras ?w 0)) = (Inl UndefinedError :: exn + string)"
    by simp
  from undefined_variable_leaves_paragraph [of ?w 0 "\<lambda>t. Inl UndefinedError", OF a b c,
      of "\<lambda>t. Inr False" "\<lambda>t w. (None, w)" "[]"]
  show ?thesis by (simp add: render_jinja2_in_textframe_def ebind_def)
qed

lemma example_slides:
  "add_slide example_namer example_template example_layout
     = \<lparr>s_layout = example_layout, s_shapes = [example_title_ph], s_notes = Some [new_paragraph]\<rparr>"
  "add_slide example_namer example_template example_layout_footer_first
     = \<lparr>s_layout = example_layout_footer_first, s_shapes = [example_title_ph],
        s_notes = Some [new_paragraph]\<rparr>"
  by (simp_all add: add_slide_def example_layout_def example_layout_footer_first_def
      example_title_ph_def example_footer_ph_def cloneable_def shapes_clone_placeholder_def
      has_text_body_def example_namer_def example_template_def)

lemma example_scan:
  "scan_placeholders (enumerate n (l_placeholders example_layout)) (i, - 1, - 1, - 1)
     = (int n + 1, int n + 1, - 1, - 1)"
  "scan_placeholders (enumerate n (l_placeholders example_layout_footer_first)) (i, - 1, - 1, - 1)
     = (int n + 1, int n, - 1, - 1)"
  by (simp_all add: example_layout_def example_layout_footer_first_def example_title_ph_def
      example_footer_ph_def)

lemma example_footer_clone:
  "clone_placeholder example_namer
     \<lparr>s_layout = example_layout, s_shapes = [example_title_ph], s_notes = Some [new_paragraph]\<rparr>
     example_layout 1
   = Inr (example_footer_ph,
          \<lparr>s_layout = example_layout,
           s_shapes = [example_title_ph, example_footer_ph\<lparr>sh_text_frame := None\<rparr>],
           s_notes = Some [new_paragraph]\<rparr>)"
  by (simp add: clone_placeholder_def py_index_def example_layout_def ebind_def
      shapes_clone_placeholder_def example_namer_def has_text_body_def example_footer_ph_def)

lemma example_footer_text:
  "shape_set_text (example_footer_ph\<lparr>sh_text_frame := None\<rparr>) (shape_text example_footer_ph)
     = example_footer_ph"
proof -
  have "shape_text example_footer_ph = ''Confidential''"
    by (simp add: shape_text_def shape_frame_def example_footer_ph_def frame_text_def
        para_text_def para_set_text_def append_text_def new_paragraph_def)
  then show ?thesis
    by (simp add: shape_set_text_def example_footer_ph_def frame_set_text_def
        para_set_text_def)
qed

text \<open>
  Claim C2 does not hold of the code. The inner loop of \<^verbatim>\<open>process_footers\<close> assigns to
  the variable that holds the slide's position, so the test that is meant to skip the
  first slide looks at the position of the layout's last placeholder. In this deck of two
  slides the first slide gets the footer of its layout, and the second, whose layout has
  the footer as its first placeholder, gets none.
\<close>

theorem process_footers_first_slide:
  "map_sum id (\<lambda>prs. map s_shapes (slides prs))
     (process_footers ''Nov. 3, 2026'' example_namer
        (example_template\<lparr>slides :=
           [add_slide example_namer example_template example_layout,
            add_slide example_namer example_template example_layout_footer_first]\<rparr>))
   = Inr [[example_title_ph, example_footer_ph], [example_title_ph]]"
proof -
  have 1: "footer_slide ''Nov. 3, 2026'' example_namer 0
             \<lparr>s_layout = example_layout, s_shapes = [example_title_ph],
              s_notes = Some [new_paragraph]\<rparr>
           = Inr \<lparr>s_layout = example_layout, s_shapes = [example_title_ph, example_footer_ph],
              s_notes = Some [new_paragraph]\<rparr>"
    by (simp add: footer_slide_def example_scan example_footer_clone ebind_def
        update_last_shape_def example_footer_text)
  have 2: "footer_slide ''Nov. 3, 2026'' example_namer (Suc 0)
             \<lparr>s_layout = example_layout_footer_first, s_shapes = [example_title_ph],
              s_notes = Some [new_paragraph]\<rparr>
           = Inr \<lparr>s_layout = example_layout_footer_first, s_shapes = [example_title_ph],
              s_notes = Some [new_paragraph]\<rparr>"
    by (simp add: footer_slide_def example_scan ebind_def)
  show ?thesis
    by (simp add: process_footers_def ebind_def example_slides 1 2 enumerate_eq_zip
        upt_rec [of 0 2] upt_rec [of 1 2])
qed

lemma render_shapes_raises:
  "shapes \<noteq> [] \<Longrightarrow> render_shapes ext context shapes slide = Inl TypeError"
  by (cases shapes) (simp_all add: call_render_jinja2_in_shape_def ebind_def)

lemma clone_layout_placeholders_length:
  "length (s_shapes (clone_layout_placeholders namer phs slide))
     = length (s_shapes slide) + length (filter cloneable phs)"
  by (induction phs arbitrary: slide) (simp_all add: shapes_clone_placeholder_def)

lemma add_slide_shapes:
  assumes "\<exists>ph\<in>set (l_placeholders slide_layout). cloneable ph"
  shows "s_shapes (add_slide namer prs slide_layout) \<noteq> []"
proof -
  from assms have "filter cloneable (l_placeholders slide_layout) \<noteq> []"
    by (simp add: filter_empty_conv)
  then have "length (s_shapes (add_slide namer prs slide_layout)) \<noteq> 0"
    by (simp add: add_slide_def clone_layout_placeholders_length)
  then show ?thesis by auto
qed

lemma py_get_dict_bind:
  "ebind (py_get (PDict d) k dflt) f = f (case map_of d k of None \<Rightarrow> dflt | Some v \<Rightarrow> v)"
  by (simp add: ebind_def split: option.splits)

lemma finding_slide_raises:
  assumes "py_index (slide_layouts prs) (layout_index config) = Inr slide_layout"
    and "\<exists>ph\<in>set (l_placeholders slide_layout). cloneable ph"
  shows "finding_slide ext config prs (PDict d) = Inl TypeError"
proof -
  have r: "\<And>ctx. render_shapes ext ctx
          (s_shapes (add_slide (next_ph_name ext) prs slide_layout))
          (add_slide (next_ph_name ext) prs slide_layout) = Inl TypeError"
    using add_slide_shapes [OF assms(2)] by (simp add: render_shapes_raises)
  show ?thesis
    unfolding finding_slide_def Let_def assms(1)
    by (simp only: ebind_simps py_get_dict_bind r)
qed

lemma observation_slide_raises:
  assumes "py_index (slide_layouts prs) (layout_index config) = Inr slide_layout"
    and "\<exists>ph\<in>set (l_placeholders slide_layout). cloneable ph"
  shows "observation_slide ext config prs (PDict d) = Inl TypeError"
proof -
  have r: "\<And>ctx. render_shapes ext ctx
          (s_shapes (add_slide (next_ph_name ext) prs slide_layout))
          (add_slide (next_ph_name ext) prs slide_layout) = Inl TypeError"
    using add_slide_shapes [OF assms(2)] by (simp add: render_shapes_raises)
  show ?thesis
    unfolding observation_slide_def Let_def assms(1)
    by (simp only: ebind_simps py_get_dict_bind r)
qed

text \<open>
  Claim C3 does not hold of the code. Both builders call \<^verbatim>\<open>render_jinja2_in_shape\<close>
  with three arguments, without the slide. For a configuration that is not static, a
  layout with a placeholder that slides copy, and a first item that is a dict, the call
  for the first shape of the first slide raises \<^verbatim>\<open>TypeError\<close>, which leaves the
  builder: no item is processed.
\<close>

theorem item_builders_raise:
  assumes "\<not> py_eq (mode config) (PStr ''static'')"
    and "py_index (slide_layouts prs) (layout_index config) = Inr slide_layout"
    and "\<exists>ph\<in>set (l_placeholders slide_layout). cloneable ph"
  shows "create_finding_slides ext config (PDict d # rest) prs = Inl TypeError
       \<and> create_observation_slides ext config (PDict d # rest) prs = Inl TypeError"
  using assms
  by (simp add: create_finding_slides_def create_observation_slides_def ebind_def
      finding_slide_raises observation_slide_raises)

text \<open>An instance: the example template and finding, with any externals.\<close>

theorem item_builders_raise_witness:
  "\<forall>ext.
     create_finding_slides ext (default_config ''finding'' 0 11) [example_finding] example_template
       = Inl TypeError
     \<and> create_observation_slides ext (default_config ''observation'' 0 9) [example_finding]
         example_template = Inl TypeError"
proof
  fix ext
  have m: "\<not> py_eq (mode (default_config ''finding'' 0 11)) (PStr ''static'')"
    "\<not> py_eq (mode (default_config ''observation'' 0 9)) (PStr ''static'')"
    by (simp_all add: default_config_def)
  have l: "py_index (slide_layouts example_template) (layout_index (default_config ''finding'' 0 11))
             = Inr example_layout"
    "py_index (slide_layouts example_template) (layout_index (default_config ''observation'' 0 9))
             = Inr example_layout"
    by (simp_all add: py_index_def example_template_def default_config_def)
  have c: "\<exists>ph\<in>set (l_placeholders example_layout). cloneable ph"
    by (simp add: example_layout_def example_title_ph_def cloneable_def)
  from item_builders_raise [OF m(1) l(1) c, of ext _ "[]"]
       item_builders_raise [OF m(2) l(2) c, of ext _ "[]"]
  show "create_finding_slides ext (default_config ''finding'' 0 11) [example_finding] example_template
       = Inl TypeError
     \<and> create_observation_slides ext (default_config ''observation'' 0 9) [example_finding]
         example_template = Inl TypeError"
    by (simp add: example_finding_def)
qed

end
